theory Spec2Isabelle
  imports Main "HOL-Library.Sublist"
begin

section \<open>The authentication actions of meetai\<close>

text \<open>
  A shallow embedding of \<^verbatim>\<open>src/app/actions/auth.ts\<close> (the server actions), of the
  tables of \<^verbatim>\<open>db/schema.ts\<close> and of \<^verbatim>\<open>middleware.ts\<close>. The database is a
  record of row lists passed through every action, the cookie store a map from cookie names
  to values, and the collaborators the actions call (bcrypt, uuid, the clock, zod's string
  formats, Resend, the Google provider, the two calls of Lucia) are the fields of an
  environment record. An exception of the source is a value of type \<open>exn\<close>; a
  \<^verbatim>\<open>try { ... } catch\<close> is a case distinction on a sum.
\<close>

subsection \<open>JavaScript values\<close>

text \<open>
  An optional string (\<^verbatim>\<open>string | undefined | null\<close>) is a \<open>string option\<close>.
  JavaScript's \<^verbatim>\<open>!v\<close> holds of \<^verbatim>\<open>undefined\<close>, \<^verbatim>\<open>null\<close> and the empty string.
\<close>

definition falsy :: "string option \<Rightarrow> bool" where
  "falsy v = (case v of None \<Rightarrow> True | Some s \<Rightarrow> s = [])"

text \<open>\<^verbatim>\<open>a || b\<close> on optional strings.\<close>

definition or_default :: "string option \<Rightarrow> string \<Rightarrow> string" where
  "or_default v d = (case v of None \<Rightarrow> d | Some s \<Rightarrow> (if s = [] then d else s))"

text \<open>
  \<^verbatim>\<open>Number.prototype.toString()\<close> on an integer value: the decimal digits, most
  significant first, after a minus sign for a negative number.
\<close>

definition digit_char :: "nat \<Rightarrow> char" where
  "digit_char d = char_of (48 + d)"

definition is_digit :: "char \<Rightarrow> bool" where
  "is_digit c = (48 \<le> (of_char c :: nat) \<and> (of_char c :: nat) \<le> 57)"

definition digit_val :: "char \<Rightarrow> nat" where
  "digit_val c = of_char c - 48"

fun nat_to_dec :: "nat \<Rightarrow> string" where
  "nat_to_dec n = (if n < 10 then [digit_char n] else nat_to_dec (n div 10) @ [digit_char (n mod 10)])"

declare nat_to_dec.simps [simp del]

definition toString :: "int \<Rightarrow> string" where
  "toString i = (if i < 0 then CHR ''-'' # nat_to_dec (nat (- i)) else nat_to_dec (nat i))"

text \<open>
  \<^verbatim>\<open>parseInt(s, 10)\<close>: leading white space is skipped, one sign is read, then the
  longest run of decimal digits; with no digit the result is \<^verbatim>\<open>NaN\<close>, here \<open>None\<close>.
  Whatever follows the digits is ignored. A character of a string is here a code unit
  below 256; the white space of the language among these is tab, line feed, vertical tab,
  form feed, carriage return, space and the no-break space U+00A0.
  The result is the exact integer: a JavaScript number agrees with it up to \<open>2^53\<close>, far
  beyond the 32-bit \<^verbatim>\<open>integer\<close> column the result is compared with.
\<close>

definition is_ws :: "char \<Rightarrow> bool" where
  "is_ws c = (c = CHR '' '' \<or> c = CHR 0x09 \<or> c = CHR 0x0A \<or> c = CHR 0x0B \<or> c = CHR 0x0C \<or>
              c = CHR 0x0D \<or> c = CHR 0xA0)"

definition dec_value :: "string \<Rightarrow> nat" where
  "dec_value ds = foldl (\<lambda>a c. 10 * a + digit_val c) 0 ds"

definition parseInt :: "string \<Rightarrow> int option" where
  "parseInt s =
     (let t = dropWhile is_ws s;
          neg = (case t of [] \<Rightarrow> False | c # _ \<Rightarrow> c = CHR ''-'');
          r = (case t of [] \<Rightarrow> [] | c # cs \<Rightarrow> (if c = CHR ''-'' \<or> c = CHR ''+'' then cs else t));
          ds = takeWhile is_digit r
      in if ds = [] then None
         else Some (if neg then - int (dec_value ds) else int (dec_value ds)))"

subsection \<open>The tables of the schema\<close>

record user =
  user_id :: int
  user_name :: string
  user_email :: string
  hashed_password :: "string option"
  email_verified :: bool
  provider :: string
  provider_id :: "string option"

record session_row =
  session_id :: string
  session_userId :: int
  session_expiresAt :: int

record reset_token =
  token :: string
  userId :: int
  expiresAt :: int

record store =
  usersTable :: "user list"
  sessionsTable :: "session_row list"
  passwordResetTokensTable :: "reset_token list"

text \<open>
  Times are milliseconds since the epoch. A \<^verbatim>\<open>select ... where c limit 1\<close> followed by
  \<^verbatim>\<open>rows[0]\<close> is \<open>find c\<close> on the row list; an update is a \<open>map\<close>, a delete a
  \<open>filter\<close> on the rows that stay, an insert appends.
\<close>

type_synonym cookies = "string \<rightharpoonup> string"
type_synonym form = "string \<rightharpoonup> string"
type_synonym query = "string \<rightharpoonup> string"

subsection \<open>Exceptions\<close>

text \<open>
  What the framework, the database and a call on a JavaScript object can throw:
  \<^verbatim>\<open>redirect\<close> throws \<^verbatim>\<open>NEXT_REDIRECT\<close>, an insert that repeats a unique value
  or exceeds the width of a column is refused by the database, and a call of something
  that is not a function is a \<^verbatim>\<open>TypeError\<close>. \<open>exn_text\<close> is the text
  \<^verbatim>\<open>console.log(e)\<close> prints.
\<close>

datatype exn =
    NEXT_REDIRECT string
  | UniqueViolation string
  | ValueTooLong string
  | TypeError string

fun exn_text :: "exn \<Rightarrow> string" where
  "exn_text (NEXT_REDIRECT target) = ''NEXT_REDIRECT;'' @ target"
| "exn_text (UniqueViolation c) = ''duplicate key value violates unique constraint '' @ c"
| "exn_text (ValueTooLong c) = ''value too long for type '' @ c"
| "exn_text (TypeError m) = ''TypeError: '' @ m"

subsection \<open>The environment\<close>

datatype send_outcome = Sent | SendError | SendThrows

text \<open>
  The attributes the callback passes to \<^verbatim>\<open>auth.createUser\<close>. A hashed password is not
  among them.
\<close>

record user_attributes =
  attr_email :: string
  attr_name :: string
  attr_provider :: string
  attr_provider_id :: string
  attr_email_verified :: bool

record google_user =
  sub :: string
  g_email :: "string option"
  g_name :: "string option"

record env =
  now :: int
  uuidv4 :: string
  bcrypt_hash :: "string \<Rightarrow> string"
  bcrypt_compare :: "string \<Rightarrow> string \<Rightarrow> bool"
  is_email :: "string \<Rightarrow> bool"
  is_uuid :: "string \<Rightarrow> bool"
  EMAIL_FROM :: "string option"
  resend_send :: send_outcome
  validateCallback :: "string \<Rightarrow> google_user option"
  auth_createUser :: "user list \<Rightarrow> user_attributes \<Rightarrow> exn + (int \<times> user list)"
  auth_createSession :: "session_row list \<Rightarrow> int \<Rightarrow> exn + (session_row \<times> session_row list)"
  sessionCookieName :: string
  NEXT_PUBLIC_APP_URL :: string

text \<open>
  \<open>now\<close> is what \<^verbatim>\<open>new Date()\<close> reads during the action, \<open>uuidv4\<close> the identifier
  \<^verbatim>\<open>uuidv4()\<close> draws (36 characters), \<open>bcrypt_hash\<close> is \<^verbatim>\<open>bcrypt.hash(_, 10)\<close>
  with the salt of this call (60 characters: neither reaches the width of its column),
  \<open>is_email\<close> and \<open>is_uuid\<close> are zod's \<^verbatim>\<open>.email()\<close> and \<^verbatim>\<open>.uuid()\<close> formats,
  \<open>resend_send\<close> says how \<^verbatim>\<open>resend.emails.send\<close> ends (an error result and a thrown
  exception are different ends), \<open>validateCallback\<close> is the provider's code exchange and
  profile fetch (\<open>None\<close> when it throws), and \<open>NEXT_PUBLIC_APP_URL\<close> is the text
  the template of the reset link interpolates.

  \<open>auth_createUser\<close> and \<open>auth_createSession\<close> are the calls
  \<^verbatim>\<open>auth.createUser\<close> and \<^verbatim>\<open>auth.createSession\<close> on the object that
  \<^verbatim>\<open>lib/lucia.ts\<close> exports. They are Lucia's, not functions of this repository, so
  they are parameters: given the table they work on and their arguments they raise, or
  return their value and the table as they leave it. The adapter that
  \<^verbatim>\<open>lib/lucia.ts\<close> constructs is given the users and the sessions table and no other,
  which is why the first call works on the users and the second on the sessions.
  \<open>sessionCookieName\<close> is the name \<^verbatim>\<open>auth.createSessionCookie\<close> gives the cookie,
  whose value is the identifier of the session.
\<close>

datatype event =
    ConsoleLog string
  | ConsoleWarn string
  | ConsoleError string
  | EmailsSend string string string
  | ProviderValidateCallback string

text \<open>
  The trace of an action lists what it writes to the console (the first argument of the
  call), the mails it hands to Resend (sender, recipient, reset link) and its calls of
  the provider (with the authorization code), in the order of the run.
\<close>

type_synonym field_errors = "(string \<times> string list) list"

datatype action_result =
    Failed field_errors
  | SuccessUserId int
  | SuccessMessage string
  | SuccessPlain

datatype oauth_result = OAuthSuccess int | OAuthFailure string

record 'r outcome =
  result :: 'r
  cookies_out :: cookies
  db_out :: store
  trace :: "event list"

subsection \<open>Input validation (the zod schemas)\<close>

text \<open>
  \<^verbatim>\<open>Object.fromEntries(formData.entries())\<close> is the map from field names to text values.
  A string schema reports \<^verbatim>\<open>Required\<close> for a missing field and the message of a
  failed check otherwise; \<^verbatim>\<open>formErrors.fieldErrors\<close> lists the fields that have
  messages. The \<^verbatim>\<open>refine\<close> of the reset schema runs when all three fields are strings
  and files its message under \<^verbatim>\<open>confirmPassword\<close>.
\<close>

definition string_check :: "form \<Rightarrow> string \<Rightarrow> (string \<Rightarrow> bool) \<Rightarrow> string \<Rightarrow> string list" where
  "string_check f k ok msg =
     (case f k of None \<Rightarrow> [''Required''] | Some v \<Rightarrow> (if ok v then [] else [msg]))"

definition fieldErrors :: "field_errors \<Rightarrow> field_errors" where
  "fieldErrors es = filter (\<lambda>e. snd e \<noteq> []) es"

definition field :: "form \<Rightarrow> string \<Rightarrow> string" where
  "field f k = (case f k of None \<Rightarrow> [] | Some v \<Rightarrow> v)"

definition signupSchema :: "env \<Rightarrow> form \<Rightarrow> field_errors" where
  "signupSchema e f = fieldErrors
     [(''name'', string_check f ''name'' (\<lambda>v. 1 \<le> length v) ''Name is required''),
      (''email'', string_check f ''email'' (is_email e) ''Invalid email address''),
      (''password'', string_check f ''password'' (\<lambda>v. 8 \<le> length v)
         ''Password must be at least 8 characters long'')]"

definition signinSchema :: "env \<Rightarrow> form \<Rightarrow> field_errors" where
  "signinSchema e f = fieldErrors
     [(''email'', string_check f ''email'' (is_email e) ''Invalid email address''),
      (''password'', string_check f ''password'' (\<lambda>v. 1 \<le> length v) ''Password is required'')]"

definition forgotPasswordSchema :: "env \<Rightarrow> form \<Rightarrow> field_errors" where
  "forgotPasswordSchema e f = fieldErrors
     [(''email'', string_check f ''email'' (is_email e) ''Invalid email address'')]"

definition passwords_refine :: "form \<Rightarrow> string list" where
  "passwords_refine f =
     (if f ''token'' = None \<or> f ''password'' = None \<or> f ''confirmPassword'' = None then []
      else if f ''password'' = f ''confirmPassword'' then []
      else [''Passwords don't match''])"

definition resetPasswordSchema :: "env \<Rightarrow> form \<Rightarrow> field_errors" where
  "resetPasswordSchema e f = fieldErrors
     [(''token'', string_check f ''token'' (is_uuid e) ''Invalid token format''),
      (''password'', string_check f ''password'' (\<lambda>v. 8 \<le> length v)
         ''New password must be at least 8 characters long''),
      (''confirmPassword'', string_check f ''confirmPassword'' (\<lambda>v. 8 \<le> length v)
         ''Confirm password is required'' @ passwords_refine f)]"

subsection \<open>Inserting a user row\<close>

text \<open>
  The \<^verbatim>\<open>users\<close> table generates the \<^verbatim>\<open>id\<close> of a new row
  (\<^verbatim>\<open>generatedAlwaysAsIdentity\<close>): the model takes the successor of the largest
  identifier in use. The text columns are \<^verbatim>\<open>varchar\<close> of length 255, the provider of
  length 50: an insert with a longer value raises. The columns \<^verbatim>\<open>email\<close> and
  \<^verbatim>\<open>provider_id\<close> are declared \<^verbatim>\<open>unique()\<close>: an insert that repeats a value
  raises, a null \<^verbatim>\<open>provider_id\<close> never collides.
\<close>

definition fits :: "nat \<Rightarrow> string option \<Rightarrow> bool" where
  "fits n v = (case v of None \<Rightarrow> True | Some s \<Rightarrow> length s \<le> n)"

definition user_fits_columns :: "user \<Rightarrow> bool" where
  "user_fits_columns row =
     (length (user_name row) \<le> 255 \<and> length (user_email row) \<le> 255 \<and>
      fits 255 (hashed_password row) \<and> length (provider row) \<le> 50 \<and>
      fits 255 (provider_id row))"

definition fresh_id :: "user list \<Rightarrow> int" where
  "fresh_id us = 1 + foldr max (map user_id us) 0"

definition insert_user :: "store \<Rightarrow> user \<Rightarrow> exn + (int \<times> store)" where
  "insert_user db row =
     (if \<not> user_fits_columns row
      then Inl (ValueTooLong ''character varying'')
      else if list_ex (\<lambda>u. user_email u = user_email row) (usersTable db)
      then Inl (UniqueViolation ''users_email_unique'')
      else if provider_id row \<noteq> None \<and> list_ex (\<lambda>u. provider_id u = provider_id row) (usersTable db)
      then Inl (UniqueViolation ''users_provider_id_unique'')
      else let i = fresh_id (usersTable db)
           in Inr (i, db\<lparr>usersTable := usersTable db @ [row\<lparr>user_id := i\<rparr>]\<rparr>))"

subsection \<open>Statements\<close>

text \<open>
  The statements that write to the database: the two of \<^verbatim>\<open>forgotPassword\<close>
  (\<^verbatim>\<open>delete ... where userId = id\<close>, then the insert of the new row), the two of
  \<^verbatim>\<open>resetPassword\<close> (the update of the hashed password, then
  \<^verbatim>\<open>delete ... where token = t\<close>), the insert of \<^verbatim>\<open>signup\<close> and the two calls of
  Lucia. Each is awaited on its own and none is inside a transaction, so between two
  statements of one request the statements of another request can run. A statement whose
  insert raises leaves the database as it was.
\<close>

datatype statement =
    DeleteTokensOfUser int
  | InsertToken reset_token
  | UpdatePassword int string
  | DeleteToken string
  | InsertUser user
  | CreateUser env user_attributes
  | CreateSession env int

fun exec :: "store \<Rightarrow> statement \<Rightarrow> store" where
  "exec db (DeleteTokensOfUser uid) =
     db\<lparr>passwordResetTokensTable := filter (\<lambda>t. userId t \<noteq> uid) (passwordResetTokensTable db)\<rparr>"
| "exec db (InsertToken row) =
     db\<lparr>passwordResetTokensTable := passwordResetTokensTable db @ [row]\<rparr>"
| "exec db (UpdatePassword uid h) =
     db\<lparr>usersTable :=
          map (\<lambda>x. if user_id x = uid then x\<lparr>hashed_password := Some h\<rparr> else x) (usersTable db)\<rparr>"
| "exec db (DeleteToken tok) =
     db\<lparr>passwordResetTokensTable := filter (\<lambda>t. token t \<noteq> tok) (passwordResetTokensTable db)\<rparr>"
| "exec db (InsertUser row) =
     (case insert_user db row of Inl x \<Rightarrow> db | Inr (i, db') \<Rightarrow> db')"
| "exec db (CreateUser e a) =
     (case auth_createUser e (usersTable db) a of
        Inl x \<Rightarrow> db | Inr (i, us) \<Rightarrow> db\<lparr>usersTable := us\<rparr>)"
| "exec db (CreateSession e uid) =
     (case auth_createSession e (sessionsTable db) uid of
        Inl x \<Rightarrow> db | Inr (r, ss) \<Rightarrow> db\<lparr>sessionsTable := ss\<rparr>)"

subsection \<open>signup\<close>

text \<open>
  The insert of \<^verbatim>\<open>signup\<close> returns the inserted row, so the branch for an empty
  \<^verbatim>\<open>returning\<close> list is not reached and has no counterpart; an exception of the
  insert reaches the \<^verbatim>\<open>catch\<close> of the action.
\<close>

definition signup :: "env \<Rightarrow> store \<Rightarrow> cookies \<Rightarrow> form \<Rightarrow> action_result outcome" where
  "signup e db jar f =
     (let errs = signupSchema e f in
      if errs \<noteq> [] then
        \<lparr>result = Failed errs, cookies_out = jar, db_out = db,
         trace = [ConsoleError ''Signup validation failed:'']\<rparr>
      else
        let name = field f ''name''; email = field f ''email''; password = field f ''password'' in
        if list_ex (\<lambda>u. user_email u = email) (usersTable db) then
          \<lparr>result = Failed [(''email'', [''Email already exists''])], cookies_out = jar, db_out = db,
           trace = []\<rparr>
        else
          (case insert_user db
                  \<lparr>user_id = 0, user_name = name, user_email = email,
                   hashed_password = Some (bcrypt_hash e password), email_verified = False,
                   provider = ''email'', provider_id = None\<rparr> of
             Inl x \<Rightarrow>
               \<lparr>result = Failed [(''_form'', [''An unexpected error occurred.''])],
                cookies_out = jar, db_out = db, trace = [ConsoleError ''Error during signup:'']\<rparr>
           | Inr (i, db') \<Rightarrow>
               \<lparr>result = SuccessUserId i, cookies_out = jar, db_out = db',
                trace = [ConsoleLog ''User created successfully:'']\<rparr>))"

subsection \<open>signin, getCurrentUser, signout\<close>

text \<open>
  \<^verbatim>\<open>redirect\<close> of \<^verbatim>\<open>next/navigation\<close> does not return: it throws the framework's
  \<^verbatim>\<open>NEXT_REDIRECT\<close> exception. \<open>signin_try\<close> is the body of the \<^verbatim>\<open>try\<close> block of
  \<^verbatim>\<open>signin\<close>, with the exception it ends in as a left result; \<open>signin\<close> puts the
  validation in front of it and the \<^verbatim>\<open>catch\<close> behind it, which catches whatever
  the block throws. The cookie written before the exception stays written.
\<close>

definition invalid_credentials :: action_result where
  "invalid_credentials = Failed [(''email'', [''Invalid credentials''])]"

definition signin_try :: "env \<Rightarrow> store \<Rightarrow> cookies \<Rightarrow> string \<Rightarrow> string \<Rightarrow> (exn + action_result) outcome" where
  "signin_try e db jar email password =
     (case find (\<lambda>u. user_email u = email) (usersTable db) of
        None \<Rightarrow>
          \<lparr>result = Inr invalid_credentials, cookies_out = jar, db_out = db,
           trace = [ConsoleError ''Signin failed: User not found or password missing for email:'']\<rparr>
      | Some u \<Rightarrow>
          (if falsy (hashed_password u) then
             \<lparr>result = Inr invalid_credentials, cookies_out = jar, db_out = db,
              trace = [ConsoleError ''Signin failed: User not found or password missing for email:'']\<rparr>
           else if \<not> bcrypt_compare e password (or_default (hashed_password u) []) then
             \<lparr>result = Inr invalid_credentials, cookies_out = jar, db_out = db,
              trace = [ConsoleError ''Signin failed: Password mismatch for email:'']\<rparr>
           else
             let sessionToken = toString (user_id u) in
             \<lparr>result = Inl (NEXT_REDIRECT ''/dashboard''),
              cookies_out = jar(''session'' \<mapsto> sessionToken), db_out = db,
              trace = [ConsoleLog ''User signed in successfully:'']\<rparr>))"

definition signin :: "env \<Rightarrow> store \<Rightarrow> cookies \<Rightarrow> form \<Rightarrow> action_result outcome" where
  "signin e db jar f =
     (let errs = signinSchema e f in
      if errs \<noteq> [] then
        \<lparr>result = Failed errs, cookies_out = jar, db_out = db,
         trace = [ConsoleError ''Signin validation failed:'']\<rparr>
      else
        let r = signin_try e db jar (field f ''email'') (field f ''password'') in
        (case result r of
           Inr res \<Rightarrow>
             \<lparr>result = res, cookies_out = cookies_out r, db_out = db_out r, trace = trace r\<rparr>
         | Inl x \<Rightarrow>
             \<lparr>result = Failed [(''_form'', [''An unexpected error occurred during signin.''])],
              cookies_out = cookies_out r, db_out = db_out r,
              trace = trace r @ [ConsoleError ''Error during signin action:'']\<rparr>))"

text \<open>
  \<open>getCurrentUser\<close> reads the cookie store and the database and changes neither: its
  value is the user it returns, \<open>None\<close> for \<^verbatim>\<open>null\<close>. Its \<^verbatim>\<open>catch\<close> returns
  \<^verbatim>\<open>null\<close> as well; the lookup on the row list raises nothing.
\<close>

definition getCurrentUser :: "store \<Rightarrow> cookies \<Rightarrow> user option" where
  "getCurrentUser db jar =
     (let sessionToken = jar ''session'' in
      if falsy sessionToken then None
      else
        (case parseInt (or_default sessionToken []) of
           None \<Rightarrow> None
         | Some uid \<Rightarrow> find (\<lambda>u. user_id u = uid) (usersTable db)))"

definition signout :: "store \<Rightarrow> cookies \<Rightarrow> action_result outcome" where
  "signout db jar =
     \<lparr>result = SuccessPlain, cookies_out = jar(''session'' := None), db_out = db, trace = []\<rparr>"

subsection \<open>forgotPassword\<close>

text \<open>
  \<^verbatim>\<open>addHours(d, 1)\<close> adds 3600000 milliseconds. The block of \<^verbatim>\<open>forgotPassword\<close>
  deletes the user's token rows, inserts the new row and calls Resend inside a
  \<^verbatim>\<open>try\<close> of its own, whose \<^verbatim>\<open>catch\<close> only writes to the console. The operations
  on the row lists raise nothing, so the outer \<^verbatim>\<open>catch\<close> of the action (a store or a
  hashing failure turned into a \<^verbatim>\<open>_form\<close> error) has no branch here and in
  \<open>resetPassword\<close>. \<open>forgotPassword\<close> is the request run on its own, its statements
  one after the other; \<open>forgotPassword_statements\<close> are the statements it issues, given
  the database its \<^verbatim>\<open>select\<close> reads, for the runs in which requests overlap.
\<close>

definition addHours :: "int \<Rightarrow> int \<Rightarrow> int" where
  "addHours d h = d + h * 3600000"

definition generic_message :: string where
  "generic_message = ''If an account with that email exists, we sent a password reset link.''"

definition forgotPassword :: "env \<Rightarrow> store \<Rightarrow> cookies \<Rightarrow> form \<Rightarrow> action_result outcome" where
  "forgotPassword e db jar f =
     (let errs = forgotPasswordSchema e f in
      if errs \<noteq> [] then
        \<lparr>result = Failed errs, cookies_out = jar, db_out = db,
         trace = [ConsoleError ''Forgot password validation failed:'']\<rparr>
      else
        let email = field f ''email'' in
        (case find (\<lambda>u. user_email u = email) (usersTable db) of
           None \<Rightarrow>
             \<lparr>result = SuccessMessage generic_message, cookies_out = jar, db_out = db,
              trace = [ConsoleWarn (''Forgot password attempt for non-existent email: '' @ email)]\<rparr>
         | Some u \<Rightarrow>
             let resetToken = uuidv4 e;
                 expires = addHours (now e) 1;
                 db1 = exec db (DeleteTokensOfUser (user_id u));
                 db2 = exec db1
                         (InsertToken \<lparr>token = resetToken, userId = user_id u, expiresAt = expires\<rparr>);
                 resetLink = NEXT_PUBLIC_APP_URL e @ ''/reset-password?token='' @ resetToken
             in
             if falsy (EMAIL_FROM e) then
               \<lparr>result = SuccessMessage generic_message, cookies_out = jar, db_out = db2,
                trace = [ConsoleError
                  ''Email sending failed: Sender email (EMAIL_FROM) is not configured.'']\<rparr>
             else
               \<lparr>result = SuccessMessage generic_message, cookies_out = jar, db_out = db2,
                trace =
                  [ConsoleLog (''Attempting to send password reset email to '' @ user_email u @
                     '' from '' @ or_default (EMAIL_FROM e) []),
                   EmailsSend (or_default (EMAIL_FROM e) []) (user_email u) resetLink,
                   (case resend_send e of
                      Sent \<Rightarrow> ConsoleLog ''Password reset email sent successfully:''
                    | SendError \<Rightarrow> ConsoleError ''Error sending password reset email:''
                    | SendThrows \<Rightarrow> ConsoleError ''Caught exception sending password reset email:''),
                   ConsoleLog (''Password reset initiated for email: '' @ email @
                     ''. Reset token generated, stored, and email conceptually sent.'')]\<rparr>))"

definition forgotPassword_statements :: "env \<Rightarrow> store \<Rightarrow> form \<Rightarrow> statement list" where
  "forgotPassword_statements e db f =
     (if forgotPasswordSchema e f \<noteq> [] then []
      else
        (case find (\<lambda>u. user_email u = field f ''email'') (usersTable db) of
           None \<Rightarrow> []
         | Some u \<Rightarrow>
             [DeleteTokensOfUser (user_id u),
              InsertToken \<lparr>token = uuidv4 e, userId = user_id u, expiresAt = addHours (now e) 1\<rparr>]))"

subsection \<open>resetPassword\<close>

definition invalid_token :: action_result where
  "invalid_token = Failed [(''_form'', [''Invalid or expired reset token.''])]"

definition reset_success :: action_result where
  "reset_success = SuccessMessage ''Your password has been successfully reset.''"

definition resetPassword :: "env \<Rightarrow> store \<Rightarrow> cookies \<Rightarrow> form \<Rightarrow> action_result outcome" where
  "resetPassword e db jar f =
     (let errs = resetPasswordSchema e f in
      if errs \<noteq> [] then
        \<lparr>result = Failed errs, cookies_out = jar, db_out = db,
         trace = [ConsoleError ''Reset password validation failed:'']\<rparr>
      else
        let tok = field f ''token''; password = field f ''password'' in
        (case find (\<lambda>t. token t = tok \<and> expiresAt t > now e) (passwordResetTokensTable db) of
           None \<Rightarrow> \<lparr>result = invalid_token, cookies_out = jar, db_out = db, trace = []\<rparr>
         | Some validToken \<Rightarrow>
             (case find (\<lambda>u. user_id u = userId validToken) (usersTable db) of
                None \<Rightarrow>
                  \<lparr>result = Failed [(''_form'', [''An unexpected error occurred.''])],
                   cookies_out = jar, db_out = db,
                   trace = [ConsoleError (''User not found for valid token: '' @ tok)]\<rparr>
              | Some u \<Rightarrow>
                  let hashedPassword = bcrypt_hash e password;
                      db1 = exec db (UpdatePassword (user_id u) hashedPassword);
                      db2 = exec db1 (DeleteToken tok)
                  in
                  \<lparr>result = reset_success, cookies_out = jar, db_out = db2,
                   trace = [ConsoleLog (''Password successfully reset for user ID: '' @
                                          toString (user_id u))]\<rparr>)))"

subsection \<open>The Google callback\<close>

text \<open>
  The guard of the callback. On a failed guard the function returns at once; the two
  \<^verbatim>\<open>delete\<close> calls come after it.
\<close>

definition callback_rejected :: "query \<Rightarrow> cookies \<Rightarrow> bool" where
  "callback_rejected q jar =
     (falsy (q ''code'') \<or> falsy (q ''state'') \<or> falsy (jar ''google_oauth_state'') \<or>
      falsy (jar ''google_code_verifier'') \<or> q ''state'' \<noteq> jar ''google_oauth_state'')"

text \<open>
  \<open>establish_session\<close> is the end of the \<^verbatim>\<open>try\<close> block: the session is created
  and its cookie set. An exception of \<^verbatim>\<open>auth.createSession\<close> reaches the
  \<^verbatim>\<open>catch\<close> of the block, an exception of \<^verbatim>\<open>auth.createUser\<close> the
  \<^verbatim>\<open>catch\<close> around that call.
\<close>

definition establish_session ::
  "env \<Rightarrow> store \<Rightarrow> cookies \<Rightarrow> event list \<Rightarrow> int \<Rightarrow> oauth_result outcome" where
  "establish_session e db jar tr dbUserId =
     (case auth_createSession e (sessionsTable db) dbUserId of
        Inl x \<Rightarrow>
          \<lparr>result = OAuthFailure ''Authentication failed.'', cookies_out = jar, db_out = db,
           trace = tr @ [ConsoleError ''Error handling Google OAuth callback:'']\<rparr>
      | Inr (s, ss) \<Rightarrow>
          \<lparr>result = OAuthSuccess dbUserId,
           cookies_out = jar(sessionCookieName e \<mapsto> session_id s),
           db_out = db\<lparr>sessionsTable := ss\<rparr>,
           trace = tr @ [ConsoleLog ''Google user signed in successfully:'']\<rparr>)"

definition handleGoogleOAuthCallback ::
  "env \<Rightarrow> store \<Rightarrow> cookies \<Rightarrow> query \<Rightarrow> oauth_result outcome" where
  "handleGoogleOAuthCallback e db jar q =
     (if callback_rejected q jar then
        \<lparr>result = OAuthFailure ''Authentication failed (state or code verifier mismatch).'',
         cookies_out = jar, db_out = db,
         trace = [ConsoleError
           ''Google OAuth callback failed: State or code verifier mismatch or missing.'']\<rparr>
      else
        let code = or_default (q ''code'') [];
            jar1 = jar(''google_oauth_state'' := None);
            jar2 = jar1(''google_code_verifier'' := None)
        in
        (case validateCallback e code of
           None \<Rightarrow>
             \<lparr>result = OAuthFailure ''Authentication failed.'', cookies_out = jar2, db_out = db,
              trace = [ProviderValidateCallback code,
                       ConsoleError ''Error handling Google OAuth callback:'']\<rparr>
         | Some googleUser \<Rightarrow>
             let userEmail = g_email googleUser;
                 googleId = sub googleUser;
                 userName = g_name googleUser
             in
             if falsy userEmail then
               \<lparr>result = OAuthFailure ''Authentication failed (email missing from Google).'',
                cookies_out = jar2, db_out = db,
                trace = [ProviderValidateCallback code,
                         ConsoleError ''Google OAuth callback failed: Email not provided by Google.'']\<rparr>
             else
               (case filter (\<lambda>u. provider_id u = Some googleId) (usersTable db) of
                  existing # rest \<Rightarrow>
                    establish_session e db jar2
                      [ProviderValidateCallback code,
                       ConsoleLog ''Existing Google user found, signing in:'']
                      (user_id existing)
                | [] \<Rightarrow>
                    (case auth_createUser e (usersTable db)
                            \<lparr>attr_email = or_default userEmail [],
                             attr_name = or_default userName ''Google User'',
                             attr_provider = ''google'',
                             attr_provider_id = googleId,
                             attr_email_verified = True\<rparr> of
                       Inl x \<Rightarrow>
                         \<lparr>result = OAuthFailure ''database error'', cookies_out = jar2, db_out = db,
                          trace = [ProviderValidateCallback code,
                                   ConsoleLog ''New Google user, creating account...'',
                                   ConsoleLog (exn_text x)]\<rparr>
                     | Inr (newId, us) \<Rightarrow>
                         establish_session e (db\<lparr>usersTable := us\<rparr>) jar2
                           [ProviderValidateCallback code,
                            ConsoleLog ''New Google user, creating account...'',
                            ConsoleLog ''New Google user created:'']
                           newId))))"

subsection \<open>The middleware\<close>

text \<open>
  A URL is its origin, its path and its query parameters; a request is its URL and its
  cookies. \<^verbatim>\<open>pathname.startsWith(route)\<close> is \<open>prefix route pathname\<close>. The
  \<^verbatim>\<open>config.matcher\<close> of the file tells the framework which requests it hands to the
  function; the model is the function.
\<close>

record url =
  url_origin :: string
  url_pathname :: string
  url_searchParams :: "(string \<times> string) list"

record request =
  nextUrl :: url
  request_cookies :: cookies

datatype response = NextResponse_next | NextResponse_redirect url

definition protectedRoutes :: "string list" where
  "protectedRoutes = [''/dashboard'']"

definition middleware :: "request \<Rightarrow> response" where
  "middleware req =
     (let pathname = url_pathname (nextUrl req);
          session = request_cookies req ''session'';
          isAuthenticated = \<not> falsy session;
          isProtectedRoute = list_ex (\<lambda>route. prefix route pathname) protectedRoutes
      in
      if isProtectedRoute \<and> \<not> isAuthenticated then
        NextResponse_redirect
          \<lparr>url_origin = url_origin (nextUrl req), url_pathname = ''/signin'',
           url_searchParams = [(''callbackUrl'', pathname)]\<rparr>
      else NextResponse_next)"

subsection \<open>Runs of the system\<close>

text \<open>
  A state of the system is the database with the cookie store of the browser. A step is
  a request that runs on its own, from its first statement to its last, with the
  environment of its run and its input, or one statement of a request that overlaps with
  others. \<open>run\<close> applies a list of steps from left to right: a run with overlapping
  requests holds their statements in the order in which the database receives them.
\<close>

datatype action =
    Signup env form
  | Signin env form
  | Signout
  | ForgotPassword env form
  | ResetPassword env form
  | GoogleCallback env query
  | Statement statement

record sys =
  sys_db :: store
  sys_cookies :: cookies

definition after :: "'r outcome \<Rightarrow> sys" where
  "after r = \<lparr>sys_db = db_out r, sys_cookies = cookies_out r\<rparr>"

fun step :: "sys \<Rightarrow> action \<Rightarrow> sys" where
  "step s (Signup e f) = after (signup e (sys_db s) (sys_cookies s) f)"
| "step s (Signin e f) = after (signin e (sys_db s) (sys_cookies s) f)"
| "step s Signout = after (signout (sys_db s) (sys_cookies s))"
| "step s (ForgotPassword e f) = after (forgotPassword e (sys_db s) (sys_cookies s) f)"
| "step s (ResetPassword e f) = after (resetPassword e (sys_db s) (sys_cookies s) f)"
| "step s (GoogleCallback e q) = after (handleGoogleOAuthCallback e (sys_db s) (sys_cookies s) q)"
| "step s (Statement st) = s\<lparr>sys_db := exec (sys_db s) st\<rparr>"

definition run :: "sys \<Rightarrow> action list \<Rightarrow> sys" where
  "run s acts = foldl step s acts"

text \<open>
  \<open>reissues tok a\<close>: the step \<open>a\<close> puts the token \<open>tok\<close> into the table again. It is
  a \<open>forgotPassword\<close> whose \<^verbatim>\<open>uuidv4()\<close> draws \<open>tok\<close>, or the insert statement of
  one. A version 4 UUID is random, so a run is expected to hold no such step for a token
  issued before.
\<close>

definition reissues :: "string \<Rightarrow> action \<Rightarrow> bool" where
  "reissues tok a =
     (case a of
        ForgotPassword e f \<Rightarrow> uuidv4 e = tok
      | Statement st \<Rightarrow> (case st of InsertToken row \<Rightarrow> token row = tok | _ \<Rightarrow> False)
      | _ \<Rightarrow> False)"

subsection \<open>An example installation\<close>

text \<open>
  A concrete environment, database and inputs on which the theorems below are run: Ann
  signed up with a password, Bob's row carries a Google subject. \<^verbatim>\<open>lib/lucia.ts\<close>
  builds its object with \<^verbatim>\<open>new Lucia({ adapter: ..., ... })\<close>, the class of Lucia 3,
  which has no \<^verbatim>\<open>createUser\<close> and takes the adapter as an argument of its own, not as
  a field of the options: in the example the two calls on that object raise.
\<close>

definition example_env :: env where
  "example_env =
     \<lparr>now = 1000,
      uuidv4 = ''3f2b8c1e-0000-4000-8000-00000000000a'',
      bcrypt_hash = (\<lambda>p. ''$2b$10$'' @ p),
      bcrypt_compare = (\<lambda>p h. h = ''$2b$10$'' @ p),
      is_email = (\<lambda>s. CHR ''@'' \<in> set s),
      is_uuid = (\<lambda>s. length s = 36),
      EMAIL_FROM = Some ''no-reply@meetai.example'',
      resend_send = SendError,
      validateCallback =
        (\<lambda>c. if c = ''code-1''
             then Some \<lparr>sub = ''g-123'', g_email = Some ''carol@x.com'', g_name = None\<rparr>
             else if c = ''code-2''
             then Some \<lparr>sub = ''g-777'', g_email = Some ''bob@x.com'', g_name = Some ''Bob''\<rparr>
             else None),
      auth_createUser = (\<lambda>us a. Inl (TypeError ''auth.createUser is not a function'')),
      auth_createSession = (\<lambda>ss uid. Inl (TypeError ''this.adapter.setSession is not a function'')),
      sessionCookieName = ''auth_session'',
      NEXT_PUBLIC_APP_URL = ''https://meetai.example''\<rparr>"

definition ann :: user where
  "ann = \<lparr>user_id = 1, user_name = ''Ann'', user_email = ''ann@x.com'',
           hashed_password = Some ''$2b$10$longenough1'', email_verified = False,
           provider = ''email'', provider_id = None\<rparr>"

definition bob :: user where
  "bob = \<lparr>user_id = 2, user_name = ''Bob'', user_email = ''bob@x.com'',
           hashed_password = None, email_verified = True,
           provider = ''google'', provider_id = Some ''g-777''\<rparr>"

definition example_db :: store where
  "example_db = \<lparr>usersTable = [ann, bob], sessionsTable = [], passwordResetTokensTable = []\<rparr>"

definition ann_signin :: form where
  "ann_signin = [''email'' \<mapsto> ''ann@x.com'', ''password'' \<mapsto> ''longenough1'']"

definition ann_wrong_password :: form where
  "ann_wrong_password = [''email'' \<mapsto> ''ann@x.com'', ''password'' \<mapsto> ''wrong'']"

definition dashboard_request :: "cookies \<Rightarrow> request" where
  "dashboard_request jar =
     \<lparr>nextUrl = \<lparr>url_origin = ''https://meetai.example'', url_pathname = ''/dashboard'',
                  url_searchParams = []\<rparr>,
      request_cookies = jar\<rparr>"

definition empty_db :: store where
  "empty_db = \<lparr>usersTable = [], sessionsTable = [], passwordResetTokensTable = []\<rparr>"

definition ann_forgot :: form where
  "ann_forgot = [''email'' \<mapsto> ''ann@x.com'']"

definition pending_cookies :: cookies where
  "pending_cookies = [''google_oauth_state'' \<mapsto> ''st-1'', ''google_code_verifier'' \<mapsto> ''cv-1'']"

definition forged_query :: query where
  "forged_query = [''state'' \<mapsto> ''evil'', ''code'' \<mapsto> ''code-1'']"

definition carol_query :: query where
  "carol_query = [''state'' \<mapsto> ''st-1'', ''code'' \<mapsto> ''code-1'']"

definition bob_query :: query where
  "bob_query = [''state'' \<mapsto> ''st-1'', ''code'' \<mapsto> ''code-2'']"

definition later_env :: env where
  "later_env = example_env\<lparr>now := 2000, uuidv4 := ''7a1d5e90-0000-4000-8000-00000000000b''\<rparr>"

definition ann_token :: reset_token where
  "ann_token = \<lparr>token = ''3f2b8c1e-0000-4000-8000-00000000000a'', userId = 1, expiresAt = 3601000\<rparr>"

definition issued_db :: store where
  "issued_db = \<lparr>usersTable = [ann, bob], sessionsTable = [], passwordResetTokensTable = [ann_token]\<rparr>"

definition ann_reset :: form where
  "ann_reset = [''token'' \<mapsto> ''3f2b8c1e-0000-4000-8000-00000000000a'',
                ''password'' \<mapsto> ''newpass123'', ''confirmPassword'' \<mapsto> ''newpass123'']"

definition example_sys :: sys where
  "example_sys = \<lparr>sys_db = example_db, sys_cookies = Map.empty\<rparr>"

definition second_token :: reset_token where
  "second_token =
     \<lparr>token = ''7a1d5e90-0000-4000-8000-00000000000b'', userId = 1, expiresAt = 3602000\<rparr>"

text \<open>
  Two \<open>forgotPassword\<close> requests for Ann that overlap: both have read the user row
  when the first deletes, and both have deleted when the first inserts.
\<close>

definition overlapping_issues :: "action list" where
  "overlapping_issues =
     [Statement (DeleteTokensOfUser 1), Statement (DeleteTokensOfUser 1),
      Statement (InsertToken ann_token), Statement (InsertToken second_token)]"

section \<open>Properties\<close>

subsection \<open>Decimal conversion\<close>

lemma digit_char_is_digit: "d < 10 \<Longrightarrow> is_digit (digit_char d)"
  by (simp add: is_digit_def digit_char_def)

lemma digit_val_digit_char: "d < 10 \<Longrightarrow> digit_val (digit_char d) = d"
  by (simp add: digit_val_def digit_char_def)

lemma digit_char_not_ws: "d < 10 \<Longrightarrow> \<not> is_ws (digit_char d)"
  by (auto simp: is_ws_def digit_char_def dest!: arg_cong [where f = "of_char :: char \<Rightarrow> nat"])

lemma digit_char_not_sign: "d < 10 \<Longrightarrow> digit_char d \<noteq> CHR ''-'' \<and> digit_char d \<noteq> CHR ''+''"
  by (auto simp: digit_char_def dest!: arg_cong [where f = "of_char :: char \<Rightarrow> nat"])

lemma nat_to_dec_digits: "list_all is_digit (nat_to_dec n)"
proof (induction n rule: nat_to_dec.induct)
  case (1 n)
  show ?case
  proof (cases "n < 10")
    case True
    then show ?thesis by (simp add: nat_to_dec.simps [of n] digit_char_is_digit)
  next
    case False
    with 1 show ?thesis by (simp add: nat_to_dec.simps [of n] digit_char_is_digit)
  qed
qed

lemma nat_to_dec_hd: "\<exists>d cs. d < 10 \<and> nat_to_dec n = digit_char d # cs"
proof (induction n rule: nat_to_dec.induct)
  case (1 n)
  show ?case
  proof (cases "n < 10")
    case True
    then show ?thesis by (auto simp: nat_to_dec.simps [of n])
  next
    case False
    with 1 obtain d cs where "d < 10" "nat_to_dec (n div 10) = digit_char d # cs" by blast
    with False show ?thesis by (auto simp: nat_to_dec.simps [of n])
  qed
qed

lemma dec_value_snoc: "dec_value (ds @ [c]) = 10 * dec_value ds + digit_val c"
  by (simp add: dec_value_def)

lemma dec_value_nat_to_dec: "dec_value (nat_to_dec n) = n"
proof (induction n rule: nat_to_dec.induct)
  case (1 n)
  show ?case
  proof (cases "n < 10")
    case True
    then show ?thesis by (simp add: nat_to_dec.simps [of n] dec_value_def digit_val_digit_char)
  next
    case False
    with 1 show ?thesis
      by (simp add: nat_to_dec.simps [of n] dec_value_snoc digit_val_digit_char)
  qed
qed

lemma takeWhile_all: "list_all P xs \<Longrightarrow> takeWhile P xs = xs"
  by (induction xs) auto

lemma parseInt_nat_to_dec: "parseInt (nat_to_dec n) = Some (int n)"
proof -
  obtain d cs where d: "d < 10" and eq: "nat_to_dec n = digit_char d # cs"
    using nat_to_dec_hd by blast
  have all: "takeWhile is_digit (digit_char d # cs) = digit_char d # cs"
    using nat_to_dec_digits [of n] takeWhile_all [of is_digit "nat_to_dec n"] by (simp add: eq)
  have dv: "dec_value (digit_char d # cs) = n"
    using dec_value_nat_to_dec [of n] by (simp add: eq)
  show ?thesis
    using d digit_char_not_ws [of d] digit_char_not_sign [of d] all dv
    by (simp add: parseInt_def eq Let_def)
qed

lemma parseInt_minus_nat_to_dec: "parseInt (CHR ''-'' # nat_to_dec n) = Some (- int n)"
proof -
  have all: "takeWhile is_digit (nat_to_dec n) = nat_to_dec n"
    using nat_to_dec_digits [of n] takeWhile_all by blast
  obtain d cs where eq: "nat_to_dec n = digit_char d # cs"
    using nat_to_dec_hd by blast
  have ne: "nat_to_dec n \<noteq> []" by (simp add: eq)
  have ws: "\<not> is_ws CHR ''-''" by (simp add: is_ws_def)
  show ?thesis
    by (simp add: parseInt_def Let_def all ne ws dec_value_nat_to_dec)
qed

lemma parseInt_toString: "parseInt (toString i) = Some i"
  by (simp add: toString_def parseInt_nat_to_dec parseInt_minus_nat_to_dec)

lemma parseInt_Nil: "parseInt [] = None"
  by (simp add: parseInt_def)

lemma parseInt_1: "parseInt ''1'' = Some 1"
  by (simp add: parseInt_def is_ws_def is_digit_def dec_value_def digit_val_def)

lemma toString_1: "toString 1 = ''1''"
  by code_simp

subsection \<open>Row lists\<close>

lemma find_None_list_ex: "(find P xs = None) = (\<not> list_ex P xs)"
  by (induction xs) auto

lemma find_distinct_key:
  "distinct (map f xs) \<Longrightarrow> x \<in> set xs \<Longrightarrow> find (\<lambda>y. f y = f x) xs = Some x"
  by (induction xs) auto

subsection \<open>getCurrentUser\<close>

text \<open>
  C10. \<open>getCurrentUser\<close> returns \<^verbatim>\<open>null\<close> exactly when the \<^verbatim>\<open>session\<close> cookie is
  absent, when its value does not parse to an integer (the empty value is one that does
  not), or when no user row has the parsed identifier. A cookie whose value parses to the
  identifier of a user row is answered with that row (the identifier is the primary key
  of the table). The sessions table is never consulted: replacing it by any other list of
  rows leaves the result as it is, and the function reads no clock, so no expiry is
  checked.
\<close>

theorem getCurrentUser_cookie_is_user_id:
  "(getCurrentUser db jar = None \<longleftrightarrow>
      (jar ''session'' = None \<or>
       (\<exists>s. jar ''session'' = Some s \<and>
          (parseInt s = None \<or>
           (\<exists>i. parseInt s = Some i \<and> \<not> list_ex (\<lambda>u. user_id u = i) (usersTable db))))))
   \<and> (\<forall>s u. jar ''session'' = Some s \<longrightarrow> distinct (map user_id (usersTable db)) \<longrightarrow>
          u \<in> set (usersTable db) \<longrightarrow> parseInt s = Some (user_id u) \<longrightarrow>
          getCurrentUser db jar = Some u)
   \<and> getCurrentUser (db\<lparr>sessionsTable := ss\<rparr>) jar = getCurrentUser db jar"
proof (intro conjI allI impI)
  show "getCurrentUser db jar = None \<longleftrightarrow>
      (jar ''session'' = None \<or>
       (\<exists>s. jar ''session'' = Some s \<and>
          (parseInt s = None \<or>
           (\<exists>i. parseInt s = Some i \<and> \<not> list_ex (\<lambda>u. user_id u = i) (usersTable db)))))"
  proof (cases "jar ''session''")
    case None
    then show ?thesis by (simp add: getCurrentUser_def falsy_def)
  next
    case (Some s)
    show ?thesis
    proof (cases "s = []")
      case True
      with Some show ?thesis by (simp add: getCurrentUser_def falsy_def parseInt_Nil)
    next
      case False
      with Some show ?thesis
        by (auto simp: getCurrentUser_def falsy_def or_default_def find_None_list_ex
            split: option.splits)
    qed
  qed
next
  fix s u
  assume s: "jar ''session'' = Some s" and d: "distinct (map user_id (usersTable db))"
    and u: "u \<in> set (usersTable db)" and p: "parseInt s = Some (user_id u)"
  from p have "s \<noteq> []" by (auto simp: parseInt_Nil)
  with s p find_distinct_key [OF d u] show "getCurrentUser db jar = Some u"
    by (simp add: getCurrentUser_def falsy_def or_default_def)
next
  show "getCurrentUser (db\<lparr>sessionsTable := ss\<rparr>) jar = getCurrentUser db jar"
    by (simp add: getCurrentUser_def Let_def split: option.splits)
qed

theorem getCurrentUser_cookie_is_user_id_witness:
  "[''session'' \<mapsto> ''1''] ''session'' = Some ''1''
   \<and> distinct (map user_id (usersTable example_db))
   \<and> ann \<in> set (usersTable example_db) \<and> parseInt ''1'' = Some (user_id ann)
   \<and> getCurrentUser example_db [''session'' \<mapsto> ''1''] = Some ann
   \<and> sessionsTable example_db = []"
proof -
  have a: "[''session'' \<mapsto> ''1''] ''session'' = Some ''1''" by simp
  have b: "distinct (map user_id (usersTable example_db))"
    by (simp add: example_db_def ann_def bob_def)
  have c: "ann \<in> set (usersTable example_db)" by (simp add: example_db_def)
  have d: "parseInt ''1'' = Some (user_id ann)" by (simp add: parseInt_1 ann_def)
  have "getCurrentUser example_db [''session'' \<mapsto> ''1''] = Some ann"
    using getCurrentUser_cookie_is_user_id [of example_db "[''session'' \<mapsto> ''1'']"] a b c d
    by blast
  with a b c d show ?thesis by (simp add: example_db_def)
qed

subsection \<open>signin\<close>

lemma falsy_iff: "falsy v \<longleftrightarrow> v = None \<or> v = Some []"
  by (cases v) (simp_all add: falsy_def)

lemma toString_not_Nil: "toString i \<noteq> []"
  using nat_to_dec_hd [of "nat i"] by (auto simp: toString_def)

lemma getCurrentUser_toString:
  "getCurrentUser db (jar(''session'' \<mapsto> toString i)) = find (\<lambda>x. user_id x = i) (usersTable db)"
  by (simp add: getCurrentUser_def falsy_def or_default_def toString_not_Nil parseInt_toString)

lemma ann_wrong_password_ok: "signinSchema example_env ann_wrong_password = []"
  by (simp add: signinSchema_def fieldErrors_def string_check_def example_env_def
      ann_wrong_password_def)

lemma ann_signin_ok: "signinSchema example_env ann_signin = []"
  by (simp add: signinSchema_def fieldErrors_def string_check_def example_env_def ann_signin_def)

text \<open>
  C9. A signin whose input passes the schema and whose authentication fails returns the
  same failure in each of the three cases: no user row has the email, the row has a null
  hashed password, or the password does not match the stored hash. The result is
  \<^verbatim>\<open>{ success: false, error: { email: ['Invalid credentials'] } }\<close> every time, and the
  cookie store and the database are left as they were.
\<close>

theorem signin_failures_indistinguishable:
  assumes wf: "signinSchema e f = []"
    and fails:
      "find (\<lambda>u. user_email u = field f ''email'') (usersTable db) = None \<or>
       (\<exists>u. find (\<lambda>u. user_email u = field f ''email'') (usersTable db) = Some u \<and>
          (hashed_password u = None \<or>
           (\<exists>h. hashed_password u = Some h \<and> \<not> bcrypt_compare e (field f ''password'') h)))"
  shows "result (signin e db jar f) = Failed [(''email'', [''Invalid credentials''])]
       \<and> cookies_out (signin e db jar f) = jar \<and> db_out (signin e db jar f) = db"
  using wf fails
  by (auto simp: signin_def signin_try_def invalid_credentials_def falsy_def or_default_def Let_def
      split: option.splits)

theorem signin_failures_indistinguishable_witness:
  "signinSchema example_env ann_wrong_password = []
   \<and> find (\<lambda>u. user_email u = field ann_wrong_password ''email'') (usersTable example_db) = Some ann
   \<and> hashed_password ann = Some ''$2b$10$longenough1''
   \<and> \<not> bcrypt_compare example_env (field ann_wrong_password ''password'') ''$2b$10$longenough1''
   \<and> result (signin example_env example_db Map.empty ann_wrong_password)
        = Failed [(''email'', [''Invalid credentials''])]
   \<and> cookies_out (signin example_env example_db Map.empty ann_wrong_password) = Map.empty"
proof -
  have a: "signinSchema example_env ann_wrong_password = []" by (rule ann_wrong_password_ok)
  have b: "find (\<lambda>u. user_email u = field ann_wrong_password ''email'') (usersTable example_db) = Some ann"
    by (simp add: example_db_def ann_def bob_def ann_wrong_password_def field_def)
  have c: "hashed_password ann = Some ''$2b$10$longenough1''" by (simp add: ann_def)
  have d: "\<not> bcrypt_compare example_env (field ann_wrong_password ''password'') ''$2b$10$longenough1''"
    by (simp add: example_env_def ann_wrong_password_def field_def)
  from b c d have fails:
    "find (\<lambda>u. user_email u = field ann_wrong_password ''email'') (usersTable example_db) = None \<or>
       (\<exists>u. find (\<lambda>u. user_email u = field ann_wrong_password ''email'') (usersTable example_db) = Some u \<and>
          (hashed_password u = None \<or>
           (\<exists>h. hashed_password u = Some h \<and>
              \<not> bcrypt_compare example_env (field ann_wrong_password ''password'') h)))"
    by blast
  show ?thesis
    using signin_failures_indistinguishable [OF a fails, of Map.empty] a b c d by simp
qed

text \<open>
  C1 (what the code does). On a signin that succeeds, the value written to the
  \<^verbatim>\<open>session\<close> cookie is the decimal text of the user's identifier: a function of the
  identifier alone, from which \<^verbatim>\<open>parseInt\<close> gives the identifier back. No session row
  is stored, and \<open>getCurrentUser\<close> on the resulting cookie store finds the user by that
  identifier.
\<close>

theorem signin_session_token_is_user_id:
  assumes wf: "signinSchema e f = []"
    and found: "find (\<lambda>u. user_email u = field f ''email'') (usersTable db) = Some u"
    and pw: "hashed_password u = Some h" "h \<noteq> []" "bcrypt_compare e (field f ''password'') h"
  shows "cookies_out (signin e db jar f) ''session'' = Some (toString (user_id u))
       \<and> parseInt (toString (user_id u)) = Some (user_id u)
       \<and> sessionsTable (db_out (signin e db jar f)) = sessionsTable db
       \<and> getCurrentUser db (cookies_out (signin e db jar f))
           = find (\<lambda>x. user_id x = user_id u) (usersTable db)"
proof -
  have out: "cookies_out (signin e db jar f) = jar(''session'' \<mapsto> toString (user_id u))"
    and db: "db_out (signin e db jar f) = db"
    using wf found pw
    by (simp_all add: signin_def signin_try_def falsy_def or_default_def Let_def)
  show ?thesis
    by (simp add: out db parseInt_toString getCurrentUser_toString)
qed

theorem signin_session_token_is_user_id_witness:
  "signinSchema example_env ann_signin = []
   \<and> find (\<lambda>u. user_email u = field ann_signin ''email'') (usersTable example_db) = Some ann
   \<and> hashed_password ann = Some ''$2b$10$longenough1''
   \<and> bcrypt_compare example_env (field ann_signin ''password'') ''$2b$10$longenough1''
   \<and> cookies_out (signin example_env example_db Map.empty ann_signin) ''session'' = Some ''1''
   \<and> getCurrentUser example_db (cookies_out (signin example_env example_db Map.empty ann_signin))
        = Some ann"
proof -
  have a: "signinSchema example_env ann_signin = []" by (rule ann_signin_ok)
  have b: "find (\<lambda>u. user_email u = field ann_signin ''email'') (usersTable example_db) = Some ann"
    by (simp add: example_db_def ann_def bob_def ann_signin_def field_def)
  have c: "hashed_password ann = Some ''$2b$10$longenough1''" by (simp add: ann_def)
  have d: "''$2b$10$longenough1'' \<noteq> []" by simp
  have e: "bcrypt_compare example_env (field ann_signin ''password'') ''$2b$10$longenough1''"
    by (simp add: example_env_def ann_signin_def field_def)
  have f: "find (\<lambda>x. user_id x = user_id ann) (usersTable example_db) = Some ann"
    by (simp add: example_db_def ann_def)
  have g: "toString (user_id ann) = ''1''" by (simp add: ann_def toString_1)
  show ?thesis
    using signin_session_token_is_user_id [OF a b c d e, of Map.empty] a b c e f g by simp
qed

subsection \<open>The middleware\<close>

lemma middleware_cases:
  "middleware req =
     (if (\<exists>route \<in> set protectedRoutes. prefix route (url_pathname (nextUrl req))) \<and>
         (request_cookies req ''session'' = None \<or> request_cookies req ''session'' = Some [])
      then NextResponse_redirect
             \<lparr>url_origin = url_origin (nextUrl req), url_pathname = ''/signin'',
              url_searchParams = [(''callbackUrl'', url_pathname (nextUrl req))]\<rparr>
      else NextResponse_next)"
  unfolding middleware_def Let_def list_ex_iff falsy_iff by simp

text \<open>
  C8, as the code has it. The claim reads "no session cookie is present"; the code tests
  the cookie's value with \<^verbatim>\<open>!!session\<close>, so a \<^verbatim>\<open>session\<close> cookie that is present with
  the empty value is treated like an absent one: the request below carries such a cookie
  and is redirected.
\<close>

theorem middleware_empty_session_cookie_counterexample:
  "request_cookies (dashboard_request [''session'' \<mapsto> []]) ''session'' = Some []
   \<and> middleware (dashboard_request [''session'' \<mapsto> []]) =
       NextResponse_redirect
         \<lparr>url_origin = ''https://meetai.example'', url_pathname = ''/signin'',
          url_searchParams = [(''callbackUrl'', ''/dashboard'')]\<rparr>"
  by (simp add: middleware_def dashboard_request_def falsy_def protectedRoutes_def Let_def)

text \<open>
  C8, amended. The middleware answers with a redirect exactly when the path starts with a
  protected route and the \<^verbatim>\<open>session\<close> cookie is absent or has the empty value; the
  target is then \<^verbatim>\<open>/signin\<close> on the request's origin with the request's path as the
  \<^verbatim>\<open>callbackUrl\<close> parameter. In every other case the answer is
  \<^verbatim>\<open>NextResponse.next()\<close>. The function takes the request alone: no store is among its
  arguments, so only the cookie is looked at.
\<close>

theorem middleware_redirects_iff_protected_and_no_session_value:
  "((\<exists>target. middleware req = NextResponse_redirect target) \<longleftrightarrow>
      (\<exists>route \<in> set protectedRoutes. prefix route (url_pathname (nextUrl req))) \<and>
      (request_cookies req ''session'' = None \<or> request_cookies req ''session'' = Some []))
   \<and> (\<forall>target. middleware req = NextResponse_redirect target \<longrightarrow>
         target = \<lparr>url_origin = url_origin (nextUrl req), url_pathname = ''/signin'',
                   url_searchParams = [(''callbackUrl'', url_pathname (nextUrl req))]\<rparr>)
   \<and> ((\<forall>target. middleware req \<noteq> NextResponse_redirect target) \<longrightarrow>
         middleware req = NextResponse_next)"
proof (intro conjI allI impI)
  show "(\<exists>target. middleware req = NextResponse_redirect target) \<longleftrightarrow>
      (\<exists>route \<in> set protectedRoutes. prefix route (url_pathname (nextUrl req))) \<and>
      (request_cookies req ''session'' = None \<or> request_cookies req ''session'' = Some [])"
    by (simp only: middleware_cases [of req] split: if_split) simp_all
next
  fix target assume "middleware req = NextResponse_redirect target"
  then show "target = \<lparr>url_origin = url_origin (nextUrl req), url_pathname = ''/signin'',
                   url_searchParams = [(''callbackUrl'', url_pathname (nextUrl req))]\<rparr>"
    by (simp only: middleware_cases [of req] split: if_split_asm) simp_all
next
  assume "\<forall>target. middleware req \<noteq> NextResponse_redirect target"
  then show "middleware req = NextResponse_next"
    by (cases "middleware req") simp_all
qed

theorem middleware_redirects_witness:
  "middleware (dashboard_request Map.empty) =
       NextResponse_redirect
         \<lparr>url_origin = ''https://meetai.example'', url_pathname = ''/signin'',
          url_searchParams = [(''callbackUrl'', ''/dashboard'')]\<rparr>
   \<and> middleware (dashboard_request [''session'' \<mapsto> ''1'']) = NextResponse_next"
proof -
  let ?r0 = "dashboard_request Map.empty"
  let ?r1 = "dashboard_request [''session'' \<mapsto> ''1'']"
  note m0 = middleware_redirects_iff_protected_and_no_session_value [of ?r0]
  note m1 = middleware_redirects_iff_protected_and_no_session_value [of ?r1]
  have p: "\<exists>route \<in> set protectedRoutes. prefix route (url_pathname (nextUrl ?r0))"
    by (simp add: protectedRoutes_def dashboard_request_def)
  have c: "request_cookies ?r0 ''session'' = None"
    by (simp add: dashboard_request_def)
  have "\<exists>target. middleware ?r0 = NextResponse_redirect target"
    using m0 [THEN conjunct1] p c by (simp only: simp_thms)
  then obtain target where t: "middleware ?r0 = NextResponse_redirect target" ..
  have "target = \<lparr>url_origin = url_origin (nextUrl ?r0), url_pathname = ''/signin'',
                   url_searchParams = [(''callbackUrl'', url_pathname (nextUrl ?r0))]\<rparr>"
    using m0 [THEN conjunct2, THEN conjunct1, THEN spec, THEN mp, OF t] .
  with t have a: "middleware ?r0 =
       NextResponse_redirect
         \<lparr>url_origin = ''https://meetai.example'', url_pathname = ''/signin'',
          url_searchParams = [(''callbackUrl'', ''/dashboard'')]\<rparr>"
    by (simp add: dashboard_request_def)
  have n: "\<not> (request_cookies ?r1 ''session'' = None \<or> request_cookies ?r1 ''session'' = Some [])"
    by (simp add: dashboard_request_def)
  have "\<not> (\<exists>target. middleware ?r1 = NextResponse_redirect target)"
    using m1 [THEN conjunct1] n by (simp only: simp_thms)
  then have "\<forall>target. middleware ?r1 \<noteq> NextResponse_redirect target" by blast
  then have b: "middleware ?r1 = NextResponse_next"
    by (rule m1 [THEN conjunct2, THEN conjunct2, THEN mp])
  from a b show ?thesis by (rule conjI)
qed

subsection \<open>forgotPassword\<close>

lemma forgotPasswordSchema_ok:
  "f ''email'' = Some em \<Longrightarrow> is_email e em \<Longrightarrow> forgotPasswordSchema e f = []"
  by (simp add: forgotPasswordSchema_def fieldErrors_def string_check_def)

lemma forgotPassword_result:
  "forgotPasswordSchema e f = [] \<Longrightarrow>
     result (forgotPassword e db jar f) = SuccessMessage generic_message"
  by (simp add: forgotPassword_def Let_def split: option.splits)

lemma forgotPassword_send_failure_logged:
  assumes ok: "forgotPasswordSchema e f = []"
    and found: "find (\<lambda>u. user_email u = field f ''email'') (usersTable db) = Some u"
    and bad: "resend_send e \<noteq> Sent \<or> falsy (EMAIL_FROM e)"
  shows "\<exists>m. ConsoleError m \<in> set (trace (forgotPassword e db jar f))"
proof (cases "falsy (EMAIL_FROM e)")
  case True
  then have "trace (forgotPassword e db jar f) =
      [ConsoleError ''Email sending failed: Sender email (EMAIL_FROM) is not configured.'']"
    using ok found by (simp add: forgotPassword_def Let_def)
  then show ?thesis by simp
next
  case False
  with bad have ns: "resend_send e \<noteq> Sent" by simp
  have "\<exists>m. trace (forgotPassword e db jar f) ! 2 = ConsoleError m
          \<and> length (trace (forgotPassword e db jar f)) = 4"
    using ok found False ns
    by (cases "resend_send e") (simp_all add: forgotPassword_def Let_def)
  then obtain m where m: "trace (forgotPassword e db jar f) ! 2 = ConsoleError m"
    and len: "length (trace (forgotPassword e db jar f)) = 4" by blast
  have "trace (forgotPassword e db jar f) ! 2 \<in> set (trace (forgotPassword e db jar f))"
    by (rule nth_mem) (simp add: len)
  with m show ?thesis by auto
qed

text \<open>
  C6. For an input whose email passes the schema, \<open>forgotPassword\<close> returns the generic
  success result with the one message, and two runs return the same result whatever the
  two databases hold (a user with that email or none) and however the two environments
  send the mail (sender configured or not, Resend accepting, returning an error or
  throwing). When a user is found and the mail is not sent, the run writes an error to
  the console; the result is the same all the same.
\<close>

theorem forgotPassword_same_generic_result:
  assumes em: "f ''email'' = Some em" and oka: "is_email ea em" and okb: "is_email eb em"
  shows "result (forgotPassword ea dba jara f) =
           SuccessMessage ''If an account with that email exists, we sent a password reset link.''
       \<and> result (forgotPassword eb dbb jarb f) = result (forgotPassword ea dba jara f)
       \<and> (\<forall>u. find (\<lambda>u. user_email u = em) (usersTable dba) = Some u \<longrightarrow>
             (resend_send ea \<noteq> Sent \<or> falsy (EMAIL_FROM ea)) \<longrightarrow>
             (\<exists>m. ConsoleError m \<in> set (trace (forgotPassword ea dba jara f))))"
proof (intro conjI allI impI)
  have ok1: "forgotPasswordSchema ea f = []" and ok2: "forgotPasswordSchema eb f = []"
    using em oka okb by (simp_all add: forgotPasswordSchema_ok)
  have fe: "field f ''email'' = em" using em by (simp add: field_def)
  show r1: "result (forgotPassword ea dba jara f) =
           SuccessMessage ''If an account with that email exists, we sent a password reset link.''"
    using forgotPassword_result [OF ok1] by (simp add: generic_message_def)
  show "result (forgotPassword eb dbb jarb f) = result (forgotPassword ea dba jara f)"
    by (simp only: forgotPassword_result [OF ok1] forgotPassword_result [OF ok2])
  fix u
  assume "find (\<lambda>u. user_email u = em) (usersTable dba) = Some u"
    and "resend_send ea \<noteq> Sent \<or> falsy (EMAIL_FROM ea)"
  then show "\<exists>m. ConsoleError m \<in> set (trace (forgotPassword ea dba jara f))"
    using forgotPassword_send_failure_logged [OF ok1, of dba u jara] by (simp only: fe)
qed

theorem forgotPassword_same_generic_result_witness:
  "ann_forgot ''email'' = Some ''ann@x.com''
   \<and> is_email example_env ''ann@x.com''
   \<and> find (\<lambda>u. user_email u = ''ann@x.com'') (usersTable example_db) = Some ann
   \<and> find (\<lambda>u. user_email u = ''ann@x.com'') (usersTable empty_db) = None
   \<and> resend_send example_env = SendError
   \<and> result (forgotPassword example_env example_db Map.empty ann_forgot) =
       SuccessMessage ''If an account with that email exists, we sent a password reset link.''
   \<and> result (forgotPassword (example_env\<lparr>resend_send := Sent\<rparr>) empty_db Map.empty ann_forgot) =
       result (forgotPassword example_env example_db Map.empty ann_forgot)"
proof -
  have a: "ann_forgot ''email'' = Some ''ann@x.com''" by (simp add: ann_forgot_def)
  have b: "is_email example_env ''ann@x.com''" by (simp add: example_env_def)
  have b2: "is_email (example_env\<lparr>resend_send := Sent\<rparr>) ''ann@x.com''"
    by (simp add: example_env_def)
  have c: "find (\<lambda>u. user_email u = ''ann@x.com'') (usersTable example_db) = Some ann"
    by (simp add: example_db_def ann_def)
  have d: "find (\<lambda>u. user_email u = ''ann@x.com'') (usersTable empty_db) = None"
    by (simp add: empty_db_def)
  have s: "resend_send example_env = SendError" by (simp add: example_env_def)
  note t = forgotPassword_same_generic_result
    [where f = ann_forgot and em = "''ann@x.com''" and ea = example_env
       and eb = "example_env\<lparr>resend_send := Sent\<rparr>" and dba = example_db and jara = Map.empty
       and dbb = empty_db and jarb = Map.empty, OF a b b2]
  from t [THEN conjunct1] t [THEN conjunct2, THEN conjunct1] a b c d s
  show ?thesis by (intro conjI)
qed

subsection \<open>The Google callback: the guard\<close>

lemma callback_rejected_iff:
  "callback_rejected q jar \<longleftrightarrow>
     q ''code'' = None \<or> q ''code'' = Some [] \<or> q ''state'' = None \<or> q ''state'' = Some [] \<or>
     jar ''google_oauth_state'' = None \<or> jar ''google_oauth_state'' = Some [] \<or>
     jar ''google_code_verifier'' = None \<or> jar ''google_code_verifier'' = Some [] \<or>
     q ''state'' \<noteq> jar ''google_oauth_state''"
  by (auto simp: callback_rejected_def falsy_iff)

lemma callback_when_rejected:
  "callback_rejected q jar \<Longrightarrow>
     handleGoogleOAuthCallback e db jar q =
       \<lparr>result = OAuthFailure ''Authentication failed (state or code verifier mismatch).'',
        cookies_out = jar, db_out = db,
        trace = [ConsoleError
          ''Google OAuth callback failed: State or code verifier mismatch or missing.'']\<rparr>"
  by (simp add: handleGoogleOAuthCallback_def)

text \<open>
  C3. A callback in which the query's \<^verbatim>\<open>state\<close> is absent, the state cookie is absent,
  the two differ, or the query's \<^verbatim>\<open>code\<close> is absent returns the failure result of the
  guard, and its run holds no call of the provider: \<^verbatim>\<open>validateCallback\<close>, which
  exchanges the code and fetches the profile, is not reached. The database is unchanged.
\<close>

theorem callback_rejected_before_provider_call:
  assumes "q ''state'' = None \<or> jar ''google_oauth_state'' = None \<or>
           q ''state'' \<noteq> jar ''google_oauth_state'' \<or> q ''code'' = None"
  shows "result (handleGoogleOAuthCallback e db jar q) =
           OAuthFailure ''Authentication failed (state or code verifier mismatch).''
       \<and> (\<forall>c. ProviderValidateCallback c \<notin> set (trace (handleGoogleOAuthCallback e db jar q)))
       \<and> db_out (handleGoogleOAuthCallback e db jar q) = db"
proof -
  from assms have "callback_rejected q jar"
    by (simp only: callback_rejected_iff) blast
  then show ?thesis by (simp add: callback_when_rejected)
qed

lemma forged_rejected: "forged_query ''state'' \<noteq> pending_cookies ''google_oauth_state''"
  by (simp add: forged_query_def pending_cookies_def)

theorem callback_rejected_before_provider_call_witness:
  "forged_query ''state'' \<noteq> pending_cookies ''google_oauth_state''
   \<and> result (handleGoogleOAuthCallback example_env example_db pending_cookies forged_query) =
           OAuthFailure ''Authentication failed (state or code verifier mismatch).''
   \<and> ProviderValidateCallback ''code-1'' \<notin>
        set (trace (handleGoogleOAuthCallback example_env example_db pending_cookies forged_query))
   \<and> db_out (handleGoogleOAuthCallback example_env example_db pending_cookies forged_query) = example_db"
proof -
  have a: "forged_query ''state'' = None \<or> pending_cookies ''google_oauth_state'' = None \<or>
           forged_query ''state'' \<noteq> pending_cookies ''google_oauth_state'' \<or>
           forged_query ''code'' = None"
    using forged_rejected by blast
  note t = callback_rejected_before_provider_call
    [where q = forged_query and jar = pending_cookies and e = example_env and db = example_db, OF a]
  from t [THEN conjunct1] t [THEN conjunct2, THEN conjunct1, THEN spec, of "''code-1''"]
    t [THEN conjunct2, THEN conjunct2] forged_rejected
  show ?thesis by (intro conjI)
qed

lemma callback_accepted_calls_provider:
  "\<not> callback_rejected q jar \<Longrightarrow>
     hd (trace (handleGoogleOAuthCallback e db jar q)) =
       ProviderValidateCallback (or_default (q ''code'') [])"
  by (simp add: handleGoogleOAuthCallback_def establish_session_def Let_def
      split: option.splits list.splits sum.splits prod.splits)

subsection \<open>The Google callback: the transient cookies\<close>

lemma establish_session_cookies:
  "k \<noteq> sessionCookieName e \<Longrightarrow> cookies_out (establish_session e db jar tr uid) k = jar k"
  by (simp add: establish_session_def split: sum.splits prod.splits)

lemma callback_cookies_when_accepted:
  assumes acc: "\<not> callback_rejected q jar" and k: "k \<noteq> sessionCookieName e"
  shows "cookies_out (handleGoogleOAuthCallback e db jar q) k =
           (jar(''google_oauth_state'' := None, ''google_code_verifier'' := None)) k"
  using acc k
  by (simp add: handleGoogleOAuthCallback_def Let_def establish_session_cookies
      split: option.splits list.splits sum.splits prod.splits)

text \<open>
  C2, as the code has it. A callback whose \<^verbatim>\<open>state\<close> differs from the state cookie
  fails the guard, and the function returns before the two \<^verbatim>\<open>delete\<close> calls: both
  transient cookies are still in the cookie store afterwards.
\<close>

theorem callback_keeps_cookies_when_rejected_counterexample:
  "forged_query ''state'' \<noteq> pending_cookies ''google_oauth_state''
   \<and> cookies_out (handleGoogleOAuthCallback example_env example_db pending_cookies forged_query)
        ''google_oauth_state'' = Some ''st-1''
   \<and> cookies_out (handleGoogleOAuthCallback example_env example_db pending_cookies forged_query)
        ''google_code_verifier'' = Some ''cv-1''"
proof -
  have r: "callback_rejected forged_query pending_cookies"
    using forged_rejected by (simp add: callback_rejected_def)
  show ?thesis
    by (simp add: callback_when_rejected [OF r] forged_rejected) (simp add: pending_cookies_def)
qed

text \<open>
  C2, amended. The two transient cookies are deleted on every callback that passes the
  guard, however the run ends afterwards (the exchange throws, the email is missing, the
  user cannot be created, the session cannot be created, or the signin succeeds); a
  callback that fails the guard leaves the cookie store as it was. (The session cookie
  that a successful run sets afterwards carries Lucia's configured name, taken to differ
  from the two transient names.)
\<close>

theorem callback_deletes_transient_cookies_once_accepted:
  "(callback_rejected q jar \<longrightarrow> cookies_out (handleGoogleOAuthCallback e db jar q) = jar)
   \<and> (\<not> callback_rejected q jar \<longrightarrow>
        sessionCookieName e \<noteq> ''google_oauth_state'' \<longrightarrow>
        sessionCookieName e \<noteq> ''google_code_verifier'' \<longrightarrow>
        cookies_out (handleGoogleOAuthCallback e db jar q) ''google_oauth_state'' = None \<and>
        cookies_out (handleGoogleOAuthCallback e db jar q) ''google_code_verifier'' = None)"
proof (intro conjI impI)
  assume "callback_rejected q jar"
  then show "cookies_out (handleGoogleOAuthCallback e db jar q) = jar"
    by (simp add: callback_when_rejected)
next
  assume acc: "\<not> callback_rejected q jar"
    and "sessionCookieName e \<noteq> ''google_oauth_state''"
  then show "cookies_out (handleGoogleOAuthCallback e db jar q) ''google_oauth_state'' = None"
    using callback_cookies_when_accepted [OF acc, of "''google_oauth_state''" e db] by simp
next
  assume acc: "\<not> callback_rejected q jar"
    and "sessionCookieName e \<noteq> ''google_code_verifier''"
  then show "cookies_out (handleGoogleOAuthCallback e db jar q) ''google_code_verifier'' = None"
    using callback_cookies_when_accepted [OF acc, of "''google_code_verifier''" e db] by simp
qed


lemma carol_accepted: "\<not> callback_rejected carol_query pending_cookies"
  by (simp add: callback_rejected_def falsy_def carol_query_def pending_cookies_def)

theorem callback_deletes_transient_cookies_once_accepted_witness:
  "\<not> callback_rejected carol_query pending_cookies
   \<and> sessionCookieName example_env = ''auth_session''
   \<and> pending_cookies ''google_oauth_state'' = Some ''st-1''
   \<and> cookies_out (handleGoogleOAuthCallback example_env example_db pending_cookies carol_query)
        ''google_oauth_state'' = None
   \<and> cookies_out (handleGoogleOAuthCallback example_env example_db pending_cookies carol_query)
        ''google_code_verifier'' = None"
proof -
  have n: "sessionCookieName example_env = ''auth_session''" by (simp add: example_env_def)
  have n1: "sessionCookieName example_env \<noteq> ''google_oauth_state''" by (simp add: n)
  have n2: "sessionCookieName example_env \<noteq> ''google_code_verifier''" by (simp add: n)
  have p: "pending_cookies ''google_oauth_state'' = Some ''st-1''"
    by (simp add: pending_cookies_def)
  note t = callback_deletes_transient_cookies_once_accepted
    [where q = carol_query and jar = pending_cookies and e = example_env and db = example_db,
     THEN conjunct2, THEN mp, OF carol_accepted, THEN mp, OF n1, THEN mp, OF n2]
  from carol_accepted n p t [THEN conjunct1] t [THEN conjunct2]
  show ?thesis by (intro conjI)
qed

subsection \<open>The reset-token table along a run\<close>

lemma insert_user_tokens:
  "insert_user db row = Inr (i, db') \<Longrightarrow> passwordResetTokensTable db' = passwordResetTokensTable db"
  by (auto simp: insert_user_def Let_def split: if_splits)

lemma signup_tokens:
  "passwordResetTokensTable (db_out (signup e db jar f)) = passwordResetTokensTable db"
  by (auto simp: signup_def Let_def insert_user_tokens split: sum.splits)

lemma signin_db: "db_out (signin e db jar f) = db"
  by (simp add: signin_def signin_try_def Let_def split: option.splits sum.splits)

lemma signout_db: "db_out (signout db jar) = db"
  by (simp add: signout_def)

lemma establish_session_tokens:
  "passwordResetTokensTable (db_out (establish_session e db jar tr uid)) = passwordResetTokensTable db"
  by (simp add: establish_session_def split: sum.splits prod.splits)

lemma callback_tokens:
  "passwordResetTokensTable (db_out (handleGoogleOAuthCallback e db jar q)) = passwordResetTokensTable db"
  by (simp add: handleGoogleOAuthCallback_def Let_def establish_session_tokens
      split: option.splits list.splits sum.splits prod.splits)

lemma exec_token_absent:
  assumes "tok \<notin> token ` set (passwordResetTokensTable db)"
    and "\<not> reissues tok (Statement st)"
  shows "tok \<notin> token ` set (passwordResetTokensTable (exec db st))"
proof (cases st)
  case (DeleteTokensOfUser uid)
  with assms(1) show ?thesis by auto
next
  case (InsertToken row)
  with assms show ?thesis by (simp add: reissues_def)
next
  case (UpdatePassword uid h)
  with assms(1) show ?thesis by simp
next
  case (DeleteToken t)
  with assms(1) show ?thesis by auto
next
  case (InsertUser row)
  with assms(1) show ?thesis by (auto simp: insert_user_tokens split: sum.splits)
next
  case (CreateUser e a)
  with assms(1) show ?thesis by (auto split: sum.splits)
next
  case (CreateSession e uid)
  with assms(1) show ?thesis by (auto split: sum.splits)
qed

lemma forgotPassword_tokens:
  "passwordResetTokensTable (db_out (forgotPassword e db jar f)) =
     (if forgotPasswordSchema e f \<noteq> [] then passwordResetTokensTable db
      else case find (\<lambda>u. user_email u = field f ''email'') (usersTable db) of
             None \<Rightarrow> passwordResetTokensTable db
           | Some u \<Rightarrow>
               filter (\<lambda>t. userId t \<noteq> user_id u) (passwordResetTokensTable db) @
                 [\<lparr>token = uuidv4 e, userId = user_id u, expiresAt = now e + 3600000\<rparr>])"
  by (simp add: forgotPassword_def Let_def addHours_def split: option.splits)

lemma forgotPassword_users:
  "usersTable (db_out (forgotPassword e db jar f)) = usersTable db"
  by (simp add: forgotPassword_def Let_def split: option.splits)

lemma resetPassword_tokens:
  "passwordResetTokensTable (db_out (resetPassword e db jar f)) = passwordResetTokensTable db \<or>
   passwordResetTokensTable (db_out (resetPassword e db jar f)) =
     filter (\<lambda>t. token t \<noteq> field f ''token'') (passwordResetTokensTable db)"
  by (simp add: resetPassword_def Let_def split: option.splits)

lemma step_token_absent:
  assumes "tok \<notin> token ` set (passwordResetTokensTable (sys_db s))" and "\<not> reissues tok a"
  shows "tok \<notin> token ` set (passwordResetTokensTable (sys_db (step s a)))"
proof (cases a)
  case (Signup e f)
  with assms show ?thesis by (simp add: after_def signup_tokens)
next
  case (Signin e f)
  with assms show ?thesis by (simp add: after_def signin_db)
next
  case Signout
  with assms show ?thesis by (simp add: after_def signout_db)
next
  case (ForgotPassword e f)
  with assms have "uuidv4 e \<noteq> tok" by (simp add: reissues_def)
  with assms(1) ForgotPassword show ?thesis
    by (auto simp: after_def forgotPassword_tokens split: option.splits)
next
  case (ResetPassword e f)
  with assms(1) resetPassword_tokens [of e "sys_db s" "sys_cookies s" f] show ?thesis
    by (auto simp: after_def)
next
  case (GoogleCallback e q)
  with assms show ?thesis by (simp add: after_def callback_tokens)
next
  case (Statement st)
  with assms show ?thesis by (simp add: exec_token_absent)
qed

lemma run_token_absent:
  "tok \<notin> token ` set (passwordResetTokensTable (sys_db s)) \<Longrightarrow>
   list_all (\<lambda>a. \<not> reissues tok a) acts \<Longrightarrow>
   tok \<notin> token ` set (passwordResetTokensTable (sys_db (run s acts)))"
proof (induction acts arbitrary: s)
  case Nil
  then show ?case by (simp add: run_def)
next
  case (Cons a acts)
  from Cons.prems have "tok \<notin> token ` set (passwordResetTokensTable (sys_db (step s a)))"
    by (simp add: step_token_absent)
  with Cons.prems Cons.IH [of "step s a"] show ?case by (simp add: run_def)
qed

lemma resetPasswordSchema_ok:
  "resetPasswordSchema e f = [] \<longleftrightarrow>
     (\<exists>tok pw. f ''token'' = Some tok \<and> is_uuid e tok \<and> f ''password'' = Some pw \<and>
        8 \<le> length pw \<and> f ''confirmPassword'' = Some pw)"
  by (auto simp: resetPasswordSchema_def fieldErrors_def string_check_def passwords_refine_def
      split: option.splits if_splits)

lemma resetPassword_absent_token:
  assumes wf: "resetPasswordSchema e f = []"
    and absent: "field f ''token'' \<notin> token ` set (passwordResetTokensTable db)"
  shows "result (resetPassword e db jar f) = Failed [(''_form'', [''Invalid or expired reset token.''])]"
proof -
  have "find (\<lambda>t. token t = field f ''token'' \<and> expiresAt t > now e) (passwordResetTokensTable db) = None"
    using absent by (auto simp: find_None_iff image_iff)
  with wf show ?thesis by (simp add: resetPassword_def Let_def invalid_token_def)
qed

subsection \<open>resetPassword\<close>

lemma find_distinct_token:
  "distinct (map token ts) \<Longrightarrow> t \<in> set ts \<Longrightarrow> P t \<Longrightarrow>
     find (\<lambda>x. token x = token t \<and> P x) ts = Some t"
  by (induction ts) (auto simp: image_iff)

lemma find_list_ex: "list_ex P xs \<Longrightarrow> \<exists>x. find P xs = Some x \<and> P x"
  by (induction xs) auto

lemma resetPassword_when_valid:
  assumes wf: "resetPasswordSchema e f = []"
    and tok: "find (\<lambda>t. token t = field f ''token'' \<and> expiresAt t > now e)
                (passwordResetTokensTable db) = Some t"
    and usr: "find (\<lambda>u. user_id u = userId t) (usersTable db) = Some u"
  shows "resetPassword e db jar f =
     \<lparr>result = reset_success, cookies_out = jar,
      db_out =
        db\<lparr>usersTable :=
             map (\<lambda>x. if user_id x = userId t
                       then x\<lparr>hashed_password := Some (bcrypt_hash e (field f ''password''))\<rparr>
                       else x)
                 (usersTable db),
           passwordResetTokensTable :=
             filter (\<lambda>t. token t \<noteq> field f ''token'') (passwordResetTokensTable db)\<rparr>,
      trace = [ConsoleLog (''Password successfully reset for user ID: '' @ toString (user_id u))]\<rparr>"
proof -
  from usr have "user_id u = userId t" by (auto dest: find_Some_iff [THEN iffD1])
  with wf tok usr show ?thesis by (simp add: resetPassword_def Let_def)
qed

lemma resetPassword_success_deletes:
  assumes "result (resetPassword e db jar f) = reset_success"
  shows "passwordResetTokensTable (db_out (resetPassword e db jar f)) =
           filter (\<lambda>t. token t \<noteq> field f ''token'') (passwordResetTokensTable db)"
  using assms
  by (simp add: resetPassword_def Let_def reset_success_def invalid_token_def
      split: if_splits option.splits)

lemma resetPassword_invalid_iff:
  assumes wf: "resetPasswordSchema e f = []"
  shows "result (resetPassword e db jar f) = invalid_token \<longleftrightarrow>
         find (\<lambda>t. token t = field f ''token'' \<and> expiresAt t > now e)
           (passwordResetTokensTable db) = None"
  using wf
  by (simp add: resetPassword_def Let_def reset_success_def invalid_token_def
      split: option.splits)

text \<open>
  C4. For an input that passes the reset schema (a token in UUID format, a password of
  eight characters or more, the confirmation equal to it): the action answers "Invalid or
  expired reset token." exactly when no stored row has the token with
  \<open>now < expiresAt\<close>. When such a row exists (tokens are unique, and the row's user
  exists, as the foreign key demands), the action succeeds, the hashed password of the
  row's user becomes the hash of the new password and every row with the token is
  deleted, all in the one call. After a call that succeeded with a token, a well-formed
  resubmission of the token is answered "Invalid or expired reset token.", at once and
  after any further steps of the system (requests run whole, or single statements of
  requests that overlap), whatever their inputs, as long as none of them puts the very
  same UUID into the table again.
\<close>

theorem resetPassword_token_single_use:
  assumes wf: "resetPasswordSchema e f = []"
  shows
    "(result (resetPassword e db jar f) = Failed [(''_form'', [''Invalid or expired reset token.''])]
        \<longleftrightarrow> \<not> (\<exists>t \<in> set (passwordResetTokensTable db).
                 token t = field f ''token'' \<and> now e < expiresAt t))
     \<and> (\<forall>t. distinct (map token (passwordResetTokensTable db)) \<longrightarrow>
            t \<in> set (passwordResetTokensTable db) \<longrightarrow>
            token t = field f ''token'' \<longrightarrow> now e < expiresAt t \<longrightarrow>
            list_ex (\<lambda>u. user_id u = userId t) (usersTable db) \<longrightarrow>
            result (resetPassword e db jar f) =
              SuccessMessage ''Your password has been successfully reset.'' \<and>
            usersTable (db_out (resetPassword e db jar f)) =
              map (\<lambda>x. if user_id x = userId t
                        then x\<lparr>hashed_password := Some (bcrypt_hash e (field f ''password''))\<rparr>
                        else x)
                  (usersTable db) \<and>
            passwordResetTokensTable (db_out (resetPassword e db jar f)) =
              filter (\<lambda>r. token r \<noteq> field f ''token'') (passwordResetTokensTable db))
     \<and> (result (resetPassword e db jar f) =
            SuccessMessage ''Your password has been successfully reset.'' \<longrightarrow>
          (\<forall>acts c e' f' jar'.
             list_all (\<lambda>a. \<not> reissues (field f ''token'') a) acts \<longrightarrow>
             resetPasswordSchema e' f' = [] \<longrightarrow>
             field f' ''token'' = field f ''token'' \<longrightarrow>
             result (resetPassword e'
                       (sys_db (run \<lparr>sys_db = db_out (resetPassword e db jar f), sys_cookies = c\<rparr> acts))
                       jar' f') =
               Failed [(''_form'', [''Invalid or expired reset token.''])]))"
proof (intro conjI allI impI)
  show "result (resetPassword e db jar f) = Failed [(''_form'', [''Invalid or expired reset token.''])]
        \<longleftrightarrow> \<not> (\<exists>t \<in> set (passwordResetTokensTable db).
                 token t = field f ''token'' \<and> now e < expiresAt t)"
    using resetPassword_invalid_iff [OF wf, of db jar]
    by (auto simp: invalid_token_def find_None_iff)
next
  fix t
  assume d: "distinct (map token (passwordResetTokensTable db))"
    and t: "t \<in> set (passwordResetTokensTable db)"
    and tt: "token t = field f ''token''" and live: "now e < expiresAt t"
    and fk: "list_ex (\<lambda>u. user_id u = userId t) (usersTable db)"
  from find_distinct_token [OF d t, of "\<lambda>x. expiresAt x > now e"] live tt
  have ft: "find (\<lambda>x. token x = field f ''token'' \<and> expiresAt x > now e)
              (passwordResetTokensTable db) = Some t"
    by simp
  from find_list_ex [OF fk] obtain u
    where fu: "find (\<lambda>u. user_id u = userId t) (usersTable db) = Some u" by blast
  note r = resetPassword_when_valid [OF wf ft fu, of jar]
  show "result (resetPassword e db jar f) = SuccessMessage ''Your password has been successfully reset.''"
    by (simp add: r reset_success_def)
  show "usersTable (db_out (resetPassword e db jar f)) =
              map (\<lambda>x. if user_id x = userId t
                        then x\<lparr>hashed_password := Some (bcrypt_hash e (field f ''password''))\<rparr>
                        else x)
                  (usersTable db)"
    by (simp add: r)
  show "passwordResetTokensTable (db_out (resetPassword e db jar f)) =
              filter (\<lambda>r. token r \<noteq> field f ''token'') (passwordResetTokensTable db)"
    by (simp add: r)
next
  fix acts c e' f' jar'
  assume ok: "result (resetPassword e db jar f) =
            SuccessMessage ''Your password has been successfully reset.''"
    and quiet: "list_all (\<lambda>a. \<not> reissues (field f ''token'') a) acts"
    and wf': "resetPasswordSchema e' f' = []"
    and same: "field f' ''token'' = field f ''token''"
  from ok have "result (resetPassword e db jar f) = reset_success"
    by (simp add: reset_success_def)
  then have "field f ''token'' \<notin>
      token ` set (passwordResetTokensTable (db_out (resetPassword e db jar f)))"
    by (auto simp: resetPassword_success_deletes)
  then have "field f ''token'' \<notin> token ` set (passwordResetTokensTable
      (sys_db (run \<lparr>sys_db = db_out (resetPassword e db jar f), sys_cookies = c\<rparr> acts)))"
    using quiet by (intro run_token_absent) simp_all
  with same have "field f' ''token'' \<notin> token ` set (passwordResetTokensTable
      (sys_db (run \<lparr>sys_db = db_out (resetPassword e db jar f), sys_cookies = c\<rparr> acts)))"
    by simp
  from resetPassword_absent_token [OF wf' this]
  show "result (resetPassword e'
                       (sys_db (run \<lparr>sys_db = db_out (resetPassword e db jar f), sys_cookies = c\<rparr> acts))
                       jar' f') =
               Failed [(''_form'', [''Invalid or expired reset token.''])]" .
qed

lemma ann_reset_ok: "resetPasswordSchema example_env ann_reset = []"
  by (simp add: resetPasswordSchema_ok example_env_def ann_reset_def)

lemma ann_reset_later_ok: "resetPasswordSchema later_env ann_reset = []"
  by (simp add: resetPasswordSchema_ok example_env_def later_env_def ann_reset_def)

theorem resetPassword_token_single_use_witness:
  "resetPasswordSchema example_env ann_reset = []
   \<and> distinct (map token (passwordResetTokensTable issued_db))
   \<and> ann_token \<in> set (passwordResetTokensTable issued_db)
   \<and> token ann_token = field ann_reset ''token''
   \<and> now example_env < expiresAt ann_token
   \<and> list_ex (\<lambda>u. user_id u = userId ann_token) (usersTable issued_db)
   \<and> result (resetPassword example_env issued_db Map.empty ann_reset) =
        SuccessMessage ''Your password has been successfully reset.''
   \<and> usersTable (db_out (resetPassword example_env issued_db Map.empty ann_reset)) =
        [ann\<lparr>hashed_password := Some ''$2b$10$newpass123''\<rparr>, bob]
   \<and> passwordResetTokensTable (db_out (resetPassword example_env issued_db Map.empty ann_reset)) = []
   \<and> result (resetPassword later_env
                (db_out (resetPassword example_env issued_db Map.empty ann_reset))
                Map.empty ann_reset) =
        Failed [(''_form'', [''Invalid or expired reset token.''])]"
proof -
  note wf = ann_reset_ok
  note t = resetPassword_token_single_use
    [where e = example_env and f = ann_reset and db = issued_db and jar = Map.empty, OF wf]
  have d: "distinct (map token (passwordResetTokensTable issued_db))"
    by (simp add: issued_db_def)
  have m: "ann_token \<in> set (passwordResetTokensTable issued_db)"
    by (simp add: issued_db_def)
  have tt: "token ann_token = field ann_reset ''token''"
    by (simp add: ann_token_def ann_reset_def field_def)
  have live: "now example_env < expiresAt ann_token"
    by (simp add: example_env_def ann_token_def)
  have fk: "list_ex (\<lambda>u. user_id u = userId ann_token) (usersTable issued_db)"
    by (simp add: issued_db_def ann_token_def ann_def)
  note s = t [THEN conjunct2, THEN conjunct1, THEN spec, THEN mp, OF d, THEN mp, OF m,
              THEN mp, OF tt, THEN mp, OF live, THEN mp, OF fk]
  have ok: "result (resetPassword example_env issued_db Map.empty ann_reset) =
        SuccessMessage ''Your password has been successfully reset.''"
    by (rule s [THEN conjunct1])
  have us: "usersTable (db_out (resetPassword example_env issued_db Map.empty ann_reset)) =
        [ann\<lparr>hashed_password := Some ''$2b$10$newpass123''\<rparr>, bob]"
    by (simp add: s [THEN conjunct2, THEN conjunct1])
       (simp add: issued_db_def ann_def bob_def ann_token_def example_env_def ann_reset_def field_def)
  have ts: "passwordResetTokensTable (db_out (resetPassword example_env issued_db Map.empty ann_reset)) = []"
    by (simp add: s [THEN conjunct2, THEN conjunct2])
       (simp add: issued_db_def ann_token_def ann_reset_def field_def)
  have quiet: "list_all (\<lambda>a. \<not> reissues (field ann_reset ''token'') a) []" by simp
  have same: "field ann_reset ''token'' = field ann_reset ''token''" by simp
  have again: "result (resetPassword later_env
                (db_out (resetPassword example_env issued_db Map.empty ann_reset))
                Map.empty ann_reset) =
        Failed [(''_form'', [''Invalid or expired reset token.''])]"
    using t [THEN conjunct2, THEN conjunct2, THEN mp, OF ok, THEN spec [of _ "[]"],
             THEN spec [of _ Map.empty], THEN spec [of _ later_env], THEN spec [of _ ann_reset],
             THEN spec [of _ Map.empty], THEN mp, OF quiet, THEN mp, OF ann_reset_later_ok,
             THEN mp, OF same]
    by (simp add: run_def)
  from wf d m tt live fk ok us ts again show ?thesis by (intro conjI)
qed

subsection \<open>Reset tokens of one user\<close>

lemma forgotPassword_runs_its_statements:
  "db_out (forgotPassword e db jar f) = foldl exec db (forgotPassword_statements e db f)"
  by (simp add: forgotPassword_def forgotPassword_statements_def Let_def split: option.splits)

lemma forgotPassword_issue:
  assumes wf: "forgotPasswordSchema e f = []"
    and usr: "find (\<lambda>u. user_email u = field f ''email'') (usersTable db) = Some u"
  shows "passwordResetTokensTable (db_out (forgotPassword e db jar f)) =
           filter (\<lambda>t. userId t \<noteq> user_id u) (passwordResetTokensTable db) @
             [\<lparr>token = uuidv4 e, userId = user_id u, expiresAt = now e + 3600000\<rparr>]"
  using wf usr by (simp add: forgotPassword_tokens)

lemma filter_filter_other: "filter (\<lambda>r. f r = k) (filter (\<lambda>t. f t \<noteq> k) xs) = []"
  by (induction xs) auto

text \<open>
  Requests that do not overlap behave as the comment of the source on the delete says
  ("to ensure only one is valid at a time"): when a second \<open>forgotPassword\<close> for the
  user runs after the first has ended, the user's only row is the second one, and the
  first token, if it differs from the second and was in no other row, is answered with
  "Invalid or expired reset token.".
\<close>

lemma forgotPassword_second_issue_in_sequence:
  assumes wfa: "forgotPasswordSchema ea f = []" and wfb: "forgotPasswordSchema eb f = []"
    and usr: "find (\<lambda>u. user_email u = field f ''email'') (usersTable db) = Some u"
    and fresh: "uuidv4 ea \<notin> token ` set (passwordResetTokensTable db)"
    and diff: "uuidv4 eb \<noteq> uuidv4 ea"
    and wf': "resetPasswordSchema e' f' = []" and tok: "field f' ''token'' = uuidv4 ea"
  shows "filter (\<lambda>r. userId r = user_id u)
           (passwordResetTokensTable
              (db_out (forgotPassword eb (db_out (forgotPassword ea db jar f)) jar f))) =
           [\<lparr>token = uuidv4 eb, userId = user_id u, expiresAt = now eb + 3600000\<rparr>]
       \<and> result (resetPassword e'
                    (db_out (forgotPassword eb (db_out (forgotPassword ea db jar f)) jar f))
                    jar' f') =
           Failed [(''_form'', [''Invalid or expired reset token.''])]"
proof -
  let ?db1 = "db_out (forgotPassword ea db jar f)"
  let ?db2 = "db_out (forgotPassword eb ?db1 jar f)"
  have t1: "passwordResetTokensTable ?db1 =
           filter (\<lambda>t. userId t \<noteq> user_id u) (passwordResetTokensTable db) @
             [\<lparr>token = uuidv4 ea, userId = user_id u, expiresAt = now ea + 3600000\<rparr>]"
    by (rule forgotPassword_issue [OF wfa usr])
  have usr1: "find (\<lambda>u. user_email u = field f ''email'') (usersTable ?db1) = Some u"
    using usr by (simp add: forgotPassword_users)
  have t2: "passwordResetTokensTable ?db2 =
           filter (\<lambda>t. userId t \<noteq> user_id u) (passwordResetTokensTable db) @
             [\<lparr>token = uuidv4 eb, userId = user_id u, expiresAt = now eb + 3600000\<rparr>]"
    by (simp add: forgotPassword_issue [OF wfb usr1] t1)
  have only: "filter (\<lambda>r. userId r = user_id u) (passwordResetTokensTable ?db2) =
              [\<lparr>token = uuidv4 eb, userId = user_id u, expiresAt = now eb + 3600000\<rparr>]"
    by (simp add: t2 filter_filter_other)
  have "uuidv4 ea \<notin> token ` set (passwordResetTokensTable ?db2)"
    using fresh diff by (auto simp: t2)
  with tok have "field f' ''token'' \<notin> token ` set (passwordResetTokensTable ?db2)" by simp
  from resetPassword_absent_token [OF wf' this] only show ?thesis by simp
qed

lemma ann_forgot_ok: "forgotPasswordSchema example_env ann_forgot = []"
  by (simp add: forgotPasswordSchema_ok [where em = "''ann@x.com''"] ann_forgot_def example_env_def)

lemma ann_forgot_later_ok: "forgotPasswordSchema later_env ann_forgot = []"
  by (simp add: forgotPasswordSchema_ok [where em = "''ann@x.com''"] ann_forgot_def
      later_env_def example_env_def)

lemma overlapping_issues_table:
  "passwordResetTokensTable (sys_db (run example_sys overlapping_issues)) = [ann_token, second_token]"
  by (simp add: run_def overlapping_issues_def example_sys_def example_db_def)

text \<open>
  C5 (what the code does). The delete and the insert of \<open>forgotPassword\<close> are two
  statements with no transaction around them, and the token table has no unique key on
  the user. Two requests for Ann overlap: each issues the statements the action issues
  (a delete of Ann's rows, then the insert of its token), and the database receives both
  deletes before both inserts. Afterwards Ann has two rows, both unexpired, and the token
  of the first request still resets her password.
\<close>

theorem overlapping_forgotPassword_leaves_two_valid_tokens:
  "forgotPassword_statements example_env example_db ann_forgot =
     [DeleteTokensOfUser 1, InsertToken ann_token]
   \<and> forgotPassword_statements later_env example_db ann_forgot =
     [DeleteTokensOfUser 1, InsertToken second_token]
   \<and> filter (\<lambda>r. userId r = 1 \<and> 2000 < expiresAt r)
        (passwordResetTokensTable (sys_db (run example_sys overlapping_issues))) =
     [ann_token, second_token]
   \<and> field ann_reset ''token'' = token ann_token
   \<and> result (resetPassword later_env (sys_db (run example_sys overlapping_issues))
               Map.empty ann_reset) =
     SuccessMessage ''Your password has been successfully reset.''"
proof -
  have usr: "find (\<lambda>u. user_email u = field ann_forgot ''email'') (usersTable example_db) = Some ann"
    by (simp add: example_db_def ann_def ann_forgot_def field_def)
  have a: "forgotPassword_statements example_env example_db ann_forgot =
     [DeleteTokensOfUser 1, InsertToken ann_token]"
    using ann_forgot_ok usr
    by (simp add: forgotPassword_statements_def) (simp add: ann_def ann_token_def example_env_def addHours_def)
  have b: "forgotPassword_statements later_env example_db ann_forgot =
     [DeleteTokensOfUser 1, InsertToken second_token]"
    using ann_forgot_later_ok usr
    by (simp add: forgotPassword_statements_def)
       (simp add: ann_def second_token_def later_env_def example_env_def addHours_def)
  have c: "filter (\<lambda>r. userId r = 1 \<and> 2000 < expiresAt r)
        (passwordResetTokensTable (sys_db (run example_sys overlapping_issues))) =
     [ann_token, second_token]"
    by (simp add: overlapping_issues_table) (simp add: ann_token_def second_token_def)
  have d: "field ann_reset ''token'' = token ann_token"
    by (simp add: ann_reset_def ann_token_def field_def)
  have ft: "find (\<lambda>t. token t = field ann_reset ''token'' \<and> expiresAt t > now later_env)
              (passwordResetTokensTable (sys_db (run example_sys overlapping_issues))) = Some ann_token"
    by (simp add: overlapping_issues_table d) (simp add: ann_token_def later_env_def)
  have us: "usersTable (sys_db (run example_sys overlapping_issues)) = [ann, bob]"
    by (simp add: run_def overlapping_issues_def example_sys_def example_db_def)
  have fu: "find (\<lambda>u. user_id u = userId ann_token)
              (usersTable (sys_db (run example_sys overlapping_issues))) = Some ann"
    by (simp add: us) (simp add: ann_def ann_token_def)
  have e: "result (resetPassword later_env (sys_db (run example_sys overlapping_issues))
               Map.empty ann_reset) =
     SuccessMessage ''Your password has been successfully reset.''"
    by (simp add: resetPassword_when_valid [OF ann_reset_later_ok ft fu] reset_success_def)
  from a b c d e show ?thesis by (intro conjI)
qed

subsection \<open>The Google callback: account resolution\<close>

lemma callback_existing_user:
  assumes acc: "\<not> callback_rejected q jar"
    and prof: "validateCallback e (or_default (q ''code'') []) = Some g"
    and mail: "g_email g = Some em" "em \<noteq> []"
    and found: "filter (\<lambda>u. provider_id u = Some (sub g)) (usersTable db) = u # rest"
  shows "handleGoogleOAuthCallback e db jar q =
           establish_session e db (jar(''google_oauth_state'' := None, ''google_code_verifier'' := None))
             [ProviderValidateCallback (or_default (q ''code'') []),
              ConsoleLog ''Existing Google user found, signing in:'']
             (user_id u)"
  using acc prof mail found
  by (simp add: handleGoogleOAuthCallback_def Let_def falsy_def)

lemma or_default_Some: "s \<noteq> [] \<Longrightarrow> or_default (Some s) d = s"
  by (simp add: or_default_def)

lemma callback_new_subject:
  assumes acc: "\<not> callback_rejected q jar"
    and prof: "validateCallback e (or_default (q ''code'') []) = Some g"
    and mail: "g_email g = Some em" "em \<noteq> []"
    and none: "filter (\<lambda>u. provider_id u = Some (sub g)) (usersTable db) = []"
  shows "handleGoogleOAuthCallback e db jar q =
     (case auth_createUser e (usersTable db)
             \<lparr>attr_email = em, attr_name = or_default (g_name g) ''Google User'',
              attr_provider = ''google'', attr_provider_id = sub g,
              attr_email_verified = True\<rparr> of
        Inl x \<Rightarrow>
          \<lparr>result = OAuthFailure ''database error'',
           cookies_out = jar(''google_oauth_state'' := None, ''google_code_verifier'' := None),
           db_out = db,
           trace = [ProviderValidateCallback (or_default (q ''code'') []),
                    ConsoleLog ''New Google user, creating account...'',
                    ConsoleLog (exn_text x)]\<rparr>
      | Inr (newId, us) \<Rightarrow>
          establish_session e (db\<lparr>usersTable := us\<rparr>)
            (jar(''google_oauth_state'' := None, ''google_code_verifier'' := None))
            [ProviderValidateCallback (or_default (q ''code'') []),
             ConsoleLog ''New Google user, creating account...'',
             ConsoleLog ''New Google user created:'']
            newId)"
  using acc prof mail none
  by (simp add: handleGoogleOAuthCallback_def Let_def falsy_def or_default_Some)

lemma establish_session_users:
  "usersTable (db_out (establish_session e db jar tr uid)) = usersTable db"
  by (simp add: establish_session_def split: sum.splits prod.splits)

lemma establish_session_success:
  "result (establish_session e db jar tr uid) = OAuthSuccess uid' \<Longrightarrow> uid' = uid"
  by (simp add: establish_session_def split: sum.splits prod.splits)

text \<open>
  Whatever the two calls of Lucia do, the callback resolves the account by the subject
  alone: with a row whose \<^verbatim>\<open>provider_id\<close> is the subject, no user row is written and
  the only identifier the callback can return is that row's; with no such row, the only
  identifier it can return is the one \<^verbatim>\<open>auth.createUser\<close> returned for the attributes
  of the profile. The email of the profile selects no row.
\<close>

lemma callback_signs_in_by_subject_only:
  assumes r: "r = handleGoogleOAuthCallback e db jar q"
    and acc: "\<not> callback_rejected q jar"
    and prof: "validateCallback e (or_default (q ''code'') []) = Some g"
    and mail: "g_email g = Some em" "em \<noteq> []"
    and ok: "result r = OAuthSuccess uid"
  shows "(\<forall>u rest. filter (\<lambda>u. provider_id u = Some (sub g)) (usersTable db) = u # rest \<longrightarrow>
            uid = user_id u \<and> usersTable (db_out r) = usersTable db)
       \<and> (filter (\<lambda>u. provider_id u = Some (sub g)) (usersTable db) = [] \<longrightarrow>
            (\<exists>us. auth_createUser e (usersTable db)
                     \<lparr>attr_email = em, attr_name = or_default (g_name g) ''Google User'',
                      attr_provider = ''google'', attr_provider_id = sub g,
                      attr_email_verified = True\<rparr> = Inr (uid, us)))"
proof (intro conjI allI impI)
  fix u rest
  assume found: "filter (\<lambda>u. provider_id u = Some (sub g)) (usersTable db) = u # rest"
  note ex = callback_existing_user [OF acc prof mail found]
  from ok show "uid = user_id u"
    by (simp add: r ex establish_session_success)
  show "usersTable (db_out r) = usersTable db"
    by (simp add: r ex establish_session_users)
next
  assume none: "filter (\<lambda>u. provider_id u = Some (sub g)) (usersTable db) = []"
  from ok show "\<exists>us. auth_createUser e (usersTable db)
                     \<lparr>attr_email = em, attr_name = or_default (g_name g) ''Google User'',
                      attr_provider = ''google'', attr_provider_id = sub g,
                      attr_email_verified = True\<rparr> = Inr (uid, us)"
    by (auto simp: r callback_new_subject [OF acc prof mail none]
        dest: establish_session_success split: sum.splits)
qed

text \<open>
  C7 (what the code does). On a callback that passes the guard, with a profile that
  carries an email: when no row has the subject, the code calls
  \<^verbatim>\<open>auth.createUser\<close> with the attributes of the claim (provider \<^verbatim>\<open>google\<close>, the
  subject as \<^verbatim>\<open>provider_id\<close>, \<^verbatim>\<open>email_verified\<close> true, no hashed password); when that
  call raises, the callback answers \<^verbatim>\<open>database error\<close> and no row is written. When a
  row has the subject, its identifier goes to \<^verbatim>\<open>auth.createSession\<close>; when that call
  raises, the callback answers \<^verbatim>\<open>Authentication failed.\<close> and nobody is signed in. On
  the object that \<^verbatim>\<open>lib/lucia.ts\<close> builds both calls raise.
\<close>

theorem callback_creates_no_user_when_lucia_raises:
  assumes r: "r = handleGoogleOAuthCallback e db jar q"
    and acc: "\<not> callback_rejected q jar"
    and prof: "validateCallback e (or_default (q ''code'') []) = Some g"
    and mail: "g_email g = Some em" "em \<noteq> []"
  shows
    "(filter (\<lambda>u. provider_id u = Some (sub g)) (usersTable db) = [] \<longrightarrow>
        (\<forall>x. auth_createUser e (usersTable db)
                \<lparr>attr_email = em, attr_name = or_default (g_name g) ''Google User'',
                 attr_provider = ''google'', attr_provider_id = sub g,
                 attr_email_verified = True\<rparr> = Inl x \<longrightarrow>
             result r = OAuthFailure ''database error'' \<and> db_out r = db))
     \<and> (\<forall>u rest. filter (\<lambda>u. provider_id u = Some (sub g)) (usersTable db) = u # rest \<longrightarrow>
          (\<forall>x. auth_createSession e (sessionsTable db) (user_id u) = Inl x \<longrightarrow>
               result r = OAuthFailure ''Authentication failed.'' \<and> db_out r = db))"
proof (intro conjI allI impI)
  fix x
  assume none: "filter (\<lambda>u. provider_id u = Some (sub g)) (usersTable db) = []"
    and raises: "auth_createUser e (usersTable db)
                \<lparr>attr_email = em, attr_name = or_default (g_name g) ''Google User'',
                 attr_provider = ''google'', attr_provider_id = sub g,
                 attr_email_verified = True\<rparr> = Inl x"
  show "result r = OAuthFailure ''database error''"
    by (simp add: r callback_new_subject [OF acc prof mail none] raises)
  show "db_out r = db"
    by (simp add: r callback_new_subject [OF acc prof mail none] raises)
next
  fix u rest x
  assume found: "filter (\<lambda>u. provider_id u = Some (sub g)) (usersTable db) = u # rest"
    and raises: "auth_createSession e (sessionsTable db) (user_id u) = Inl x"
  show "result r = OAuthFailure ''Authentication failed.''"
    by (simp add: r callback_existing_user [OF acc prof mail found] establish_session_def raises)
  show "db_out r = db"
    by (simp add: r callback_existing_user [OF acc prof mail found] establish_session_def raises)
qed

lemma bob_accepted: "\<not> callback_rejected bob_query pending_cookies"
  by (simp add: callback_rejected_def falsy_def bob_query_def pending_cookies_def)

theorem callback_creates_no_user_when_lucia_raises_witness:
  "\<not> callback_rejected carol_query pending_cookies
   \<and> validateCallback example_env (or_default (carol_query ''code'') []) =
       Some \<lparr>sub = ''g-123'', g_email = Some ''carol@x.com'', g_name = None\<rparr>
   \<and> filter (\<lambda>u. provider_id u = Some ''g-123'') (usersTable example_db) = []
   \<and> auth_createUser example_env (usersTable example_db)
        \<lparr>attr_email = ''carol@x.com'', attr_name = or_default None ''Google User'',
         attr_provider = ''google'', attr_provider_id = ''g-123'',
         attr_email_verified = True\<rparr> = Inl (TypeError ''auth.createUser is not a function'')
   \<and> result (handleGoogleOAuthCallback example_env example_db pending_cookies carol_query) =
       OAuthFailure ''database error''
   \<and> db_out (handleGoogleOAuthCallback example_env example_db pending_cookies carol_query) =
       example_db
   \<and> filter (\<lambda>u. provider_id u = Some ''g-777'') (usersTable example_db) = [bob]
   \<and> auth_createSession example_env (sessionsTable example_db) (user_id bob) =
       Inl (TypeError ''this.adapter.setSession is not a function'')
   \<and> result (handleGoogleOAuthCallback example_env example_db pending_cookies bob_query) =
       OAuthFailure ''Authentication failed.''"
proof -
  \<comment> \<open>Carol: a subject no row has.\<close>
  have pc: "validateCallback example_env (or_default (carol_query ''code'') []) =
       Some \<lparr>sub = ''g-123'', g_email = Some ''carol@x.com'', g_name = None\<rparr>"
    by (simp add: example_env_def carol_query_def or_default_def)
  have m1: "g_email \<lparr>sub = ''g-123'', g_email = Some ''carol@x.com'', g_name = None\<rparr> =
              Some ''carol@x.com''" by simp
  have m2: "''carol@x.com'' \<noteq> []" by simp
  have nc: "filter (\<lambda>u. provider_id u = Some ''g-123'') (usersTable example_db) = []"
    by (simp add: example_db_def ann_def bob_def)
  have cu: "auth_createUser example_env (usersTable example_db)
        \<lparr>attr_email = ''carol@x.com'', attr_name = or_default None ''Google User'',
         attr_provider = ''google'', attr_provider_id = ''g-123'',
         attr_email_verified = True\<rparr> = Inl (TypeError ''auth.createUser is not a function'')"
    by (simp add: example_env_def)
  note tc = callback_creates_no_user_when_lucia_raises
    [where r = "handleGoogleOAuthCallback example_env example_db pending_cookies carol_query"
       and e = example_env and db = example_db and jar = pending_cookies and q = carol_query
       and g = "\<lparr>sub = ''g-123'', g_email = Some ''carol@x.com'', g_name = None\<rparr>"
       and em = "''carol@x.com''", OF refl carol_accepted pc m1 m2,
     unfolded google_user.select_convs]
  note uc = tc [THEN conjunct1, THEN mp, OF nc, THEN spec, THEN mp, OF cu]
  \<comment> \<open>Bob: his subject is in a row.\<close>
  have pb: "validateCallback example_env (or_default (bob_query ''code'') []) =
       Some \<lparr>sub = ''g-777'', g_email = Some ''bob@x.com'', g_name = Some ''Bob''\<rparr>"
    by (simp add: example_env_def bob_query_def or_default_def)
  have m3: "g_email \<lparr>sub = ''g-777'', g_email = Some ''bob@x.com'', g_name = Some ''Bob''\<rparr> =
              Some ''bob@x.com''" by simp
  have m4: "''bob@x.com'' \<noteq> []" by simp
  have fb: "filter (\<lambda>u. provider_id u = Some ''g-777'') (usersTable example_db) = [bob]"
    by (simp add: example_db_def ann_def bob_def)
  have cs: "auth_createSession example_env (sessionsTable example_db) (user_id bob) =
       Inl (TypeError ''this.adapter.setSession is not a function'')"
    by (simp add: example_env_def)
  note tb = callback_creates_no_user_when_lucia_raises
    [where r = "handleGoogleOAuthCallback example_env example_db pending_cookies bob_query"
       and e = example_env and db = example_db and jar = pending_cookies and q = bob_query
       and g = "\<lparr>sub = ''g-777'', g_email = Some ''bob@x.com'', g_name = Some ''Bob''\<rparr>"
       and em = "''bob@x.com''", OF refl bob_accepted pb m3 m4,
     unfolded google_user.select_convs]
  note ub = tb [THEN conjunct2, THEN spec [of _ bob], THEN spec [of _ "[]"], THEN mp, OF fb,
                THEN spec, THEN mp, OF cs]
  from carol_accepted pc nc cu uc [THEN conjunct1] uc [THEN conjunct2] fb cs ub [THEN conjunct1]
  show ?thesis by (intro conjI)
qed

end
